theory Spec2Isabelle
  imports Complex_Main
begin

section \<open>Data model\<close>

text \<open>
  GPU objects (textures, offscreen buffers, pipelines) are identified by a
  handle; a C pointer to such an object is a \<open>handle option\<close>, with
  \<open>None\<close> for \<open>NULL\<close>.  \<open>gfloat\<close> quantities (viewport rectangles, offsets,
  matrix entries) are idealised as real numbers: the properties below concern
  which branch is taken and which expression is computed, not rounding.
\<close>

type_synonym handle = nat

type_synonym vec4 = "real \<times> real \<times> real \<times> real"

text \<open>A \<open>CoglMatrix\<close>, given by its four columns.\<close>

type_synonym CoglMatrix = "vec4 \<times> vec4 \<times> vec4 \<times> vec4"

text \<open>
  The camera of the stage as the effect reads it: \<open>camera->viewport[0..3]\<close>
  and \<open>camera->age\<close>.  A \<open>const ClutterCamera *\<close> is the position of the
  camera in the stage's camera array, which is also its \<open>camera->index\<close>.
\<close>

record ClutterCamera =
  viewport :: vec4
  age :: int

record ClutterActorBox =
  x1 :: real
  y1 :: real
  x2 :: real
  y2 :: real

record PerCameraState =
  camera :: nat
  valid_for_age :: int
  offscreen :: "handle option"
  pipeline :: "handle option"
  texture :: "handle option"
  viewport_x_offset :: real
  viewport_y_offset :: real
  request_width :: int
  request_height :: int
  last_matrix_drawn :: CoglMatrix

text \<open>One rectangle drawn with a pipeline: what the compositing step emits.\<close>

record CoglDraw =
  draw_framebuffer :: "handle option"
  draw_pipeline :: handle
  draw_texture :: "handle option"
  draw_color :: nat
  draw_width :: int
  draw_height :: int
  draw_modelview :: CoglMatrix
  draw_projection :: CoglMatrix

text \<open>
  The Cogl context.  \<open>cogl_refcount\<close> counts the references that the code of
  this repository holds through \<open>cogl_*_new\<close>, \<open>cogl_object_ref\<close> and
  \<open>cogl_object_unref\<close>; an object with a positive count is alive.
  \<open>cogl_offscreen_ok\<close> tells whether \<open>cogl_offscreen_new_to_texture\<close>
  succeeds.  \<open>cogl_saved\<close> is the stack behind \<open>cogl_push_framebuffer\<close>: the
  draw framebuffer with its model-view, matrix stack, projection and viewport.
\<close>

record CoglContext =
  cogl_next_handle :: handle
  cogl_refcount :: "handle \<Rightarrow> int"
  cogl_texture_size :: "handle \<Rightarrow> int \<times> int"
  cogl_layer_texture :: "handle \<Rightarrow> handle option"
  cogl_pipeline_parent :: "handle \<Rightarrow> handle option"
  cogl_offscreen_ok :: bool
  cogl_framebuffer :: "handle option"
  cogl_modelview :: CoglMatrix
  cogl_matrix_stack :: "CoglMatrix list"
  cogl_projection :: CoglMatrix
  cogl_viewport :: vec4
  cogl_saved :: "(handle option \<times> CoglMatrix \<times> CoglMatrix list \<times> CoglMatrix \<times> vec4) list"
  cogl_cleared :: "handle option list"
  cogl_drawn :: "CoglDraw list"
  warnings :: "string list"

text \<open>
  The offscreen effect together with what it reads and writes outside itself:
  the stage (camera generation \<open>cameras_age\<close>, cameras, current camera,
  projection, size), the actor (paint box, opacity override, paint opacity and
  the framebuffers its subtree was painted into, in order), the
  \<open>create_texture\<close> virtual function (the size of the texture it returns, or
  \<open>None\<close> when it returns \<open>NULL\<close>), the contents of freshly allocated,
  uninitialised array slots, the \<open>ClutterActorMeta\<close> fields and the private
  structure.  \<open>priv->camera_state\<close> with \<open>priv->n_cameras\<close> is the list
  \<open>priv_camera_state\<close>; \<open>priv_actor\<close> tells whether \<open>priv->actor\<close> is
  non-\<open>NULL\<close>.
\<close>

record world = CoglContext +
  stage_cameras_age :: int
  stage_cameras :: "ClutterCamera list"
  stage_current_camera :: nat
  stage_projection :: CoglMatrix
  stage_size :: "real \<times> real"
  actor_paint_box :: "ClutterActorBox option"
  actor_opacity_override :: int
  actor_paint_opacity :: nat
  actor_painted :: "handle option list"
  create_texture :: "int \<Rightarrow> int \<Rightarrow> (int \<times> int) option"
  slice_garbage :: "nat \<Rightarrow> PerCameraState"
  feature_shaders_glsl :: bool
  meta_enabled :: bool
  meta_actor :: bool
  priv_actor :: bool
  priv_camera_state :: "PerCameraState list"
  priv_cameras_age :: int
  priv_old_opacity_override :: int

section \<open>Cogl objects\<close>

definition cogl_object_new :: "'a CoglContext_scheme \<Rightarrow> handle \<times> 'a CoglContext_scheme" where
  "cogl_object_new c =
     (cogl_next_handle c,
      c\<lparr>cogl_next_handle := Suc (cogl_next_handle c),
        cogl_refcount := (cogl_refcount c)(cogl_next_handle c := 1)\<rparr>)"

definition cogl_object_ref :: "handle \<Rightarrow> 'a CoglContext_scheme \<Rightarrow> 'a CoglContext_scheme" where
  "cogl_object_ref h c = c\<lparr>cogl_refcount := (cogl_refcount c)(h := cogl_refcount c h + 1)\<rparr>"

definition cogl_object_unref :: "handle \<Rightarrow> 'a CoglContext_scheme \<Rightarrow> 'a CoglContext_scheme" where
  "cogl_object_unref h c = c\<lparr>cogl_refcount := (cogl_refcount c)(h := cogl_refcount c h - 1)\<rparr>"

definition cogl_pipeline_new :: "'a CoglContext_scheme \<Rightarrow> handle \<times> 'a CoglContext_scheme" where
  "cogl_pipeline_new c =
     (let (p, c1) = cogl_object_new c
      in (p, c1\<lparr>cogl_layer_texture := (cogl_layer_texture c1)(p := None),
                cogl_pipeline_parent := (cogl_pipeline_parent c1)(p := None)\<rparr>))"

definition cogl_pipeline_copy :: "handle \<Rightarrow> 'a CoglContext_scheme \<Rightarrow> handle \<times> 'a CoglContext_scheme" where
  "cogl_pipeline_copy src c =
     (let (p, c1) = cogl_object_new c
      in (p, c1\<lparr>cogl_layer_texture := (cogl_layer_texture c1)(p := cogl_layer_texture c1 src),
                cogl_pipeline_parent := (cogl_pipeline_parent c1)(p := Some src)\<rparr>))"

definition cogl_pipeline_set_layer_texture ::
  "handle \<Rightarrow> handle option \<Rightarrow> 'a CoglContext_scheme \<Rightarrow> 'a CoglContext_scheme" where
  "cogl_pipeline_set_layer_texture p t c = c\<lparr>cogl_layer_texture := (cogl_layer_texture c)(p := t)\<rparr>"

definition cogl_texture_new :: "int \<times> int \<Rightarrow> 'a CoglContext_scheme \<Rightarrow> handle \<times> 'a CoglContext_scheme" where
  "cogl_texture_new sz c =
     (let (t, c1) = cogl_object_new c
      in (t, c1\<lparr>cogl_texture_size := (cogl_texture_size c1)(t := sz)\<rparr>))"

definition cogl_offscreen_new_to_texture ::
  "handle \<Rightarrow> 'a CoglContext_scheme \<Rightarrow> handle option \<times> 'a CoglContext_scheme" where
  "cogl_offscreen_new_to_texture t c =
     (if cogl_offscreen_ok c then (let (f, c1) = cogl_object_new c in (Some f, c1))
      else (None, c))"

definition g_warning :: "string \<Rightarrow> 'a CoglContext_scheme \<Rightarrow> 'a CoglContext_scheme" where
  "g_warning msg c = c\<lparr>warnings := warnings c @ [msg]\<rparr>"

section \<open>The render-target cache\<close>

definition clutter_offscreen_effect_create_texture ::
  "'a world_scheme \<Rightarrow> int \<Rightarrow> int \<Rightarrow> handle option \<times> 'a world_scheme" where
  "clutter_offscreen_effect_create_texture s w h =
     (case create_texture s w h of
        None \<Rightarrow> (None, s)
      | Some sz \<Rightarrow> (let (t, s1) = cogl_texture_new sz s in (Some t, s1)))"

definition invalidate_per_camera_state ::
  "PerCameraState \<Rightarrow> 'a CoglContext_scheme \<Rightarrow> PerCameraState \<times> 'a CoglContext_scheme" where
  "invalidate_per_camera_state cs c =
     (let (cs1, c1) = (case pipeline cs of
                         Some p \<Rightarrow> (cs\<lparr>pipeline := None\<rparr>, cogl_object_unref p c)
                       | None \<Rightarrow> (cs, c))
      in (case offscreen cs1 of
            Some f \<Rightarrow> (cs1\<lparr>offscreen := None\<rparr>, cogl_object_unref f c1)
          | None \<Rightarrow> (cs1, c1)))"

text \<open>The loop \<open>for (i = 0; i < priv->n_cameras; i++) invalidate_per_camera_state (...)\<close>.\<close>

fun invalidate_all ::
  "PerCameraState list \<Rightarrow> 'a CoglContext_scheme \<Rightarrow> PerCameraState list \<times> 'a CoglContext_scheme" where
  "invalidate_all [] c = ([], c)"
| "invalidate_all (cs # rest) c =
     (let (cs1, c1) = invalidate_per_camera_state cs c;
          (rest1, c2) = invalidate_all rest c1
      in (cs1 # rest1, c2))"

text \<open>
  The body of the \<open>cameras_age != priv->cameras_age\<close> branch: every old
  entry is invalidated, the array is freed, and a new array is allocated for
  the stage's cameras; of each new slot only \<open>camera\<close>, \<open>pipeline\<close>,
  \<open>texture\<close> and \<open>offscreen\<close> are written.
\<close>

definition rebuild_camera_state :: "'a world_scheme \<Rightarrow> 'a world_scheme" where
  "rebuild_camera_state s =
     (let (old, s1) = invalidate_all (priv_camera_state s) s;
          n_cameras = length (stage_cameras s1)
      in s1\<lparr>priv_camera_state :=
               map (\<lambda>i. (slice_garbage s1 i)\<lparr>camera := i, offscreen := None,
                                             pipeline := None, texture := None\<rparr>)
                   [0..<n_cameras],
             priv_cameras_age := stage_cameras_age s1\<rparr>)"

text \<open>
  \<open>get_per_camera_state\<close> returns \<open>&priv->camera_state[camera_index]\<close>; the
  model returns the updated state, and the caller reads the entry at
  \<open>camera_index\<close>.  \<open>None\<close> stands for the undefined behaviour of the C code:
  a \<open>NULL\<close> actor (no stage to ask), an index beyond the array, a camera
  pointer beyond the stage's cameras.
\<close>

definition get_per_camera_state :: "'a world_scheme \<Rightarrow> nat \<Rightarrow> 'a world_scheme option" where
  "get_per_camera_state s camera_index =
     (if \<not> priv_actor s then None
      else
        let s1 = (if stage_cameras_age s \<noteq> priv_cameras_age s then rebuild_camera_state s else s)
        in if \<not> camera_index < length (priv_camera_state s1) then None
           else
             let cs = priv_camera_state s1 ! camera_index
             in if \<not> camera cs < length (stage_cameras s1) then None
                else
                  let a = age (stage_cameras s1 ! camera cs)
                  in if a \<noteq> valid_for_age cs then
                       (let (cs1, s2) = invalidate_per_camera_state cs s1
                        in Some (s2\<lparr>priv_camera_state :=
                                      (priv_camera_state s2)[camera_index := cs1\<lparr>valid_for_age := a\<rparr>]\<rparr>))
                     else Some s1)"

definition update_fbo :: "'a world_scheme \<Rightarrow> nat \<Rightarrow> int \<Rightarrow> int \<Rightarrow> (bool \<times> 'a world_scheme) option" where
  "update_fbo s camera_index w h =
     (case get_per_camera_state s camera_index of
        None \<Rightarrow> None
      | Some s1 \<Rightarrow>
          let cs = priv_camera_state s1 ! camera_index
          in if request_width cs = w \<and> request_height cs = h \<and> offscreen cs \<noteq> None
             then Some (True, s1)
             else
               let (p, s2) = (case pipeline cs of
                                None \<Rightarrow> cogl_pipeline_new s1
                              | Some p \<Rightarrow> (p, s1));
                   s3 = (case texture cs of
                           Some t \<Rightarrow> cogl_object_unref t s2
                         | None \<Rightarrow> s2);
                   (tex, s4) = clutter_offscreen_effect_create_texture s3 w h
               in (case tex of
                     None \<Rightarrow>
                       Some (False,
                             s4\<lparr>priv_camera_state :=
                                  (priv_camera_state s4)
                                    [camera_index := cs\<lparr>pipeline := Some p, texture := None\<rparr>]\<rparr>)
                   | Some t \<Rightarrow>
                       let s5 = cogl_pipeline_set_layer_texture p (Some t) s4;
                           s6 = (case offscreen cs of
                                   Some f \<Rightarrow> cogl_object_unref f s5
                                 | None \<Rightarrow> s5);
                           (fbo, s7) = cogl_offscreen_new_to_texture t s6
                       in (case fbo of
                             None \<Rightarrow>
                               let s8 = g_warning ''Unable to create an Offscreen buffer'' s7;
                                   s9 = cogl_object_unref p s8
                               in Some (False,
                                        s9\<lparr>priv_camera_state :=
                                             (priv_camera_state s9)
                                               [camera_index :=
                                                  cs\<lparr>pipeline := None, texture := Some t,
                                                     offscreen := None,
                                                     request_width := 0, request_height := 0\<rparr>]\<rparr>)
                           | Some f \<Rightarrow>
                               Some (True,
                                     s7\<lparr>priv_camera_state :=
                                          (priv_camera_state s7)
                                            [camera_index :=
                                               cs\<lparr>pipeline := Some p, texture := Some t,
                                                  offscreen := Some f,
                                                  request_width := w, request_height := h\<rparr>]\<rparr>))))"

section \<open>Cogl drawing state\<close>

text \<open>
  Cogl is an external library; these are its documented effects on the state
  the effect code observes.
\<close>

definition cogl_set_modelview_matrix :: "CoglMatrix \<Rightarrow> 'a CoglContext_scheme \<Rightarrow> 'a CoglContext_scheme" where
  "cogl_set_modelview_matrix m c = c\<lparr>cogl_modelview := m\<rparr>"

definition cogl_set_projection_matrix :: "CoglMatrix \<Rightarrow> 'a CoglContext_scheme \<Rightarrow> 'a CoglContext_scheme" where
  "cogl_set_projection_matrix m c = c\<lparr>cogl_projection := m\<rparr>"

definition cogl_set_viewport :: "vec4 \<Rightarrow> 'a CoglContext_scheme \<Rightarrow> 'a CoglContext_scheme" where
  "cogl_set_viewport v c = c\<lparr>cogl_viewport := v\<rparr>"

definition cogl_push_framebuffer :: "handle \<Rightarrow> 'a CoglContext_scheme \<Rightarrow> 'a CoglContext_scheme" where
  "cogl_push_framebuffer f c =
     c\<lparr>cogl_saved := (cogl_framebuffer c, cogl_modelview c, cogl_matrix_stack c,
                      cogl_projection c, cogl_viewport c) # cogl_saved c,
       cogl_framebuffer := Some f\<rparr>"

definition cogl_pop_framebuffer :: "'a CoglContext_scheme \<Rightarrow> 'a CoglContext_scheme option" where
  "cogl_pop_framebuffer c =
     (case cogl_saved c of
        [] \<Rightarrow> None
      | (f, mv, st, pr, vp) # rest \<Rightarrow>
          Some (c\<lparr>cogl_saved := rest, cogl_framebuffer := f, cogl_modelview := mv,
                  cogl_matrix_stack := st, cogl_projection := pr, cogl_viewport := vp\<rparr>))"

definition cogl_push_matrix :: "'a CoglContext_scheme \<Rightarrow> 'a CoglContext_scheme" where
  "cogl_push_matrix c = c\<lparr>cogl_matrix_stack := cogl_modelview c # cogl_matrix_stack c\<rparr>"

definition cogl_pop_matrix :: "'a CoglContext_scheme \<Rightarrow> 'a CoglContext_scheme option" where
  "cogl_pop_matrix c =
     (case cogl_matrix_stack c of
        [] \<Rightarrow> None
      | m # rest \<Rightarrow> Some (c\<lparr>cogl_modelview := m, cogl_matrix_stack := rest\<rparr>))"

definition cogl_clear :: "'a CoglContext_scheme \<Rightarrow> 'a CoglContext_scheme" where
  "cogl_clear c = c\<lparr>cogl_cleared := cogl_cleared c @ [cogl_framebuffer c]\<rparr>"

definition vec4_scale :: "real \<Rightarrow> vec4 \<Rightarrow> vec4" where
  "vec4_scale k v = (case v of (a, b, c, d) \<Rightarrow> (k * a, k * b, k * c, k * d))"

definition vec4_add :: "vec4 \<Rightarrow> vec4 \<Rightarrow> vec4" where
  "vec4_add u v =
     (case u of (a, b, c, d) \<Rightarrow> case v of (a', b', c', d') \<Rightarrow> (a + a', b + b', c + c', d + d'))"

definition cogl_matrix_identity :: CoglMatrix where
  "cogl_matrix_identity = ((1, 0, 0, 0), (0, 1, 0, 0), (0, 0, 1, 0), (0, 0, 0, 1))"

definition cogl_matrix_scale :: "CoglMatrix \<Rightarrow> real \<Rightarrow> real \<Rightarrow> real \<Rightarrow> CoglMatrix" where
  "cogl_matrix_scale m sx sy sz =
     (case m of (cx, cy, cz, cw) \<Rightarrow> (vec4_scale sx cx, vec4_scale sy cy, vec4_scale sz cz, cw))"

definition cogl_matrix_translate :: "CoglMatrix \<Rightarrow> real \<Rightarrow> real \<Rightarrow> real \<Rightarrow> CoglMatrix" where
  "cogl_matrix_translate m tx ty tz =
     (case m of (cx, cy, cz, cw) \<Rightarrow>
        (cx, cy, cz,
         vec4_add (vec4_add (vec4_scale tx cx) (vec4_scale ty cy)) (vec4_add (vec4_scale tz cz) cw)))"

definition cogl_ortho_matrix :: "real \<Rightarrow> real \<Rightarrow> real \<Rightarrow> real \<Rightarrow> real \<Rightarrow> real \<Rightarrow> CoglMatrix" where
  "cogl_ortho_matrix l r b t n f =
     ((2 / (r - l), 0, 0, 0), (0, 2 / (t - b), 0, 0), (0, 0, - 2 / (f - n), 0),
      (- (r + l) / (r - l), - (t + b) / (t - b), - (f + n) / (f - n), 1))"

section \<open>The offscreen redirection engine\<close>

text \<open>The \<open>MAX\<close> macro of GLib (the name \<open>MAX\<close> is taken in HOL).\<close>

definition G_MAX :: "real \<Rightarrow> real \<Rightarrow> real" where
  "G_MAX a b = (if a > b then a else b)"

text \<open>The conversion of a \<open>gfloat\<close> argument to an \<open>int\<close> parameter.\<close>

definition float_to_int :: "real \<Rightarrow> int" where
  "float_to_int x = (if 0 \<le> x then \<lfloor>x\<rfloor> else \<lceil>x\<rceil>)"

text \<open>
  The computation of \<open>xexpand\<close> (and, with the other axis, of \<open>yexpand\<close>)
  in \<open>clutter_offscreen_effect_pre_paint\<close>.
\<close>

definition viewport_expand :: "real \<Rightarrow> int \<Rightarrow> real \<Rightarrow> real" where
  "viewport_expand offset texture_extent stage_viewport_extent =
     (let e = (if offset < 0 then - offset else 0)
      in if offset + real_of_int texture_extent > stage_viewport_extent
         then G_MAX e ((offset + real_of_int texture_extent) - stage_viewport_extent)
         else e)"

text \<open>
  The requested buffer size and the viewport offsets: from the paint box
  (\<open>clutter_actor_box_get_size\<close>, \<open>clutter_actor_box_get_origin\<close> less the
  viewport's origin) or, without a paint box, the whole viewport at offset 0.
\<close>

definition fbo_request :: "ClutterActorBox option \<Rightarrow> vec4 \<Rightarrow> real \<times> real \<times> real \<times> real" where
  "fbo_request paint_box stage_viewport =
     (case stage_viewport of
        (stage_viewport_x, stage_viewport_y, stage_viewport_width, stage_viewport_height) \<Rightarrow>
          (case paint_box of
             Some box \<Rightarrow> (x2 box - x1 box, y2 box - y1 box,
                          x1 box - stage_viewport_x, y1 box - stage_viewport_y)
           | None \<Rightarrow> (stage_viewport_width, stage_viewport_height, 0, 0)))"

text \<open>
  The second half of \<open>clutter_offscreen_effect_pre_paint\<close>, entered once
  \<open>update_fbo\<close> has succeeded: from the query of the texture's size to the
  override of the actor's opacity.  \<open>t\<close> and \<open>f\<close> are the entry's texture
  and offscreen buffer.
\<close>

definition pre_paint_redirect :: "'a world_scheme \<Rightarrow> nat \<Rightarrow> vec4 \<Rightarrow> handle \<Rightarrow> handle \<Rightarrow> 'a world_scheme" where
  "pre_paint_redirect s3 index stage_viewport t f =
     (let (stage_viewport_x, stage_viewport_y, stage_viewport_width, stage_viewport_height) =
            stage_viewport;
          cs3 = priv_camera_state s3 ! index;
          (texture_width, texture_height) = cogl_texture_size s3 t;
          m = cogl_modelview s3;
          s4 = s3\<lparr>priv_camera_state :=
                    (priv_camera_state s3)[index := cs3\<lparr>last_matrix_drawn := m\<rparr>]\<rparr>;
          s5 = cogl_set_modelview_matrix m (cogl_push_framebuffer f s4);
          xexpand = viewport_expand (viewport_x_offset cs3) texture_width stage_viewport_width;
          yexpand = viewport_expand (viewport_y_offset cs3) texture_height stage_viewport_height;
          s6 = cogl_set_viewport
                 (- (viewport_x_offset cs3 + xexpand),
                  - (viewport_y_offset cs3 + yexpand),
                  stage_viewport_width + 2 * xexpand,
                  stage_viewport_height + 2 * yexpand) s5;
          projection =
            (if xexpand > 0 \<or> yexpand > 0
             then cogl_matrix_scale (stage_projection s6)
                    (stage_viewport_width / (stage_viewport_width + 2 * xexpand))
                    (stage_viewport_height / (stage_viewport_height + 2 * yexpand))
                    1
             else stage_projection s6);
          s7 = cogl_push_matrix (cogl_clear (cogl_set_projection_matrix projection s6))
      in s7\<lparr>priv_old_opacity_override := actor_opacity_override s7,
            actor_opacity_override := 255\<rparr>)"

definition clutter_offscreen_effect_pre_paint :: "'a world_scheme \<Rightarrow> (bool \<times> 'a world_scheme) option" where
  "clutter_offscreen_effect_pre_paint s =
     (if \<not> meta_enabled s then Some (False, s)
      else if \<not> priv_actor s then Some (False, s)
      else if \<not> stage_current_camera s < length (stage_cameras s) then None
      else
        let index = stage_current_camera s
        in case get_per_camera_state s index of
             None \<Rightarrow> None
           | Some s1 \<Rightarrow>
               (let stage_viewport = viewport (stage_cameras s1 ! index);
                    cs = priv_camera_state s1 ! index;
                    (fbo_request_width, fbo_request_height, xo, yo) =
                      fbo_request (actor_paint_box s1) stage_viewport;
                    s2 = s1\<lparr>priv_camera_state :=
                              (priv_camera_state s1)
                                [index := cs\<lparr>viewport_x_offset := xo, viewport_y_offset := yo\<rparr>]\<rparr>
                in case update_fbo s2 index (float_to_int fbo_request_width)
                                          (float_to_int fbo_request_height) of
                     None \<Rightarrow> None
                   | Some (False, s3) \<Rightarrow> Some (False, s3)
                   | Some (True, s3) \<Rightarrow>
                       (case (texture (priv_camera_state s3 ! index),
                              offscreen (priv_camera_state s3 ! index)) of
                          (Some t, Some f) \<Rightarrow>
                            Some (True, pre_paint_redirect s3 index stage_viewport t f)
                        | _ \<Rightarrow> None)))"

text \<open>
  The default \<open>paint_target\<close>: one rectangle of the size of the texture, drawn
  with the entry's pipeline at the actor's paint opacity.
\<close>

definition clutter_offscreen_effect_real_paint_target :: "'a world_scheme \<Rightarrow> 'a world_scheme option" where
  "clutter_offscreen_effect_real_paint_target s =
     (if \<not> priv_actor s \<or> \<not> stage_current_camera s < length (stage_cameras s) then None
      else
        let index = stage_current_camera s
        in case get_per_camera_state s index of
             None \<Rightarrow> None
           | Some s1 \<Rightarrow>
               let cs = priv_camera_state s1 ! index
               in (case (pipeline cs, texture cs) of
                     (Some p, Some t) \<Rightarrow>
                       Some (s1\<lparr>cogl_drawn := cogl_drawn s1 @
                                  [\<lparr>draw_framebuffer = cogl_framebuffer s1, draw_pipeline = p,
                                    draw_texture = cogl_layer_texture s1 p,
                                    draw_color = actor_paint_opacity s1,
                                    draw_width = fst (cogl_texture_size s1 t),
                                    draw_height = snd (cogl_texture_size s1 t),
                                    draw_modelview = cogl_modelview s1,
                                    draw_projection = cogl_projection s1\<rparr>]\<rparr>)
                   | _ \<Rightarrow> None))"

text \<open>The compositing step: the blit of the offscreen texture onto the real target.\<close>

definition clutter_offscreen_effect_paint_texture :: "'a world_scheme \<Rightarrow> 'a world_scheme option" where
  "clutter_offscreen_effect_paint_texture s =
     (if \<not> priv_actor s \<or> \<not> stage_current_camera s < length (stage_cameras s) then None
      else
        let index = stage_current_camera s
        in case get_per_camera_state s index of
             None \<Rightarrow> None
           | Some s1 \<Rightarrow>
               (let (vx, vy, vw, vh) = viewport (stage_cameras s1 ! index);
                        (stage_width, stage_height) = stage_size s1;
                        cs = priv_camera_state s1 ! index;
                        saved_projection = cogl_projection s1;
                        s2 = cogl_push_matrix
                               (cogl_set_projection_matrix
                                  (cogl_ortho_matrix 0 stage_width stage_height 0 (- 1) 100) s1);
                        scale_x = stage_width / vw;
                        scale_y = stage_height / vh;
                        stage_x = viewport_x_offset cs * scale_x;
                        stage_y = viewport_y_offset cs * scale_y;
                        modelview = cogl_matrix_scale
                                      (cogl_matrix_translate cogl_matrix_identity stage_x stage_y 0)
                                      scale_x scale_y 1;
                        s3 = cogl_set_modelview_matrix modelview s2
                    in case clutter_offscreen_effect_real_paint_target s3 of
                         None \<Rightarrow> None
                       | Some s4 \<Rightarrow>
                           (case cogl_pop_matrix s4 of
                              None \<Rightarrow> None
                            | Some s5 \<Rightarrow> Some (cogl_set_projection_matrix saved_projection s5))))"

definition clutter_offscreen_effect_post_paint :: "'a world_scheme \<Rightarrow> 'a world_scheme option" where
  "clutter_offscreen_effect_post_paint s =
     (if \<not> priv_actor s \<or> \<not> stage_current_camera s < length (stage_cameras s) then None
      else
        let index = stage_current_camera s
        in case get_per_camera_state s index of
             None \<Rightarrow> None
           | Some s1 \<Rightarrow>
               let cs = priv_camera_state s1 ! index
               in if offscreen cs = None \<or> pipeline cs = None \<or> \<not> priv_actor s1 then Some s1
                  else
                    let s2 = s1\<lparr>actor_opacity_override := priv_old_opacity_override s1\<rparr>
                    in (case cogl_pop_matrix s2 of
                          None \<Rightarrow> None
                        | Some s3 \<Rightarrow>
                            (case cogl_pop_framebuffer s3 of
                               None \<Rightarrow> None
                             | Some s4 \<Rightarrow> clutter_offscreen_effect_paint_texture s4)))"

text \<open>
  The actor's subtree paints itself into the current draw framebuffer; with
  no actor, \<open>clutter_actor_continue_paint\<close> does nothing.
\<close>

definition clutter_actor_continue_paint :: "'a world_scheme \<Rightarrow> 'a world_scheme" where
  "clutter_actor_continue_paint s =
     (if meta_actor s then s\<lparr>actor_painted := actor_painted s @ [cogl_framebuffer s]\<rparr> else s)"

text \<open>
  Modelled from the spec: the \<open>paint\<close> method of the parent class
  \<open>ClutterEffect\<close>, which \<open>clutter_offscreen_effect_paint\<close> chains up to
  and whose source is not part of the repository's files.  Following the
  spec's paint cycle (PRE\_PAINT, PAINTING, POST\_PAINT, with POST\_PAINT
  skipped when PRE\_PAINT fails and the actor then painted on its default
  path) and the comment at the call site (``will call the pre and post paint
  functions''): it runs \<open>pre_paint\<close>, lets the actor paint, and runs
  \<open>post_paint\<close> if \<open>pre_paint\<close> succeeded.
\<close>

definition clutter_effect_real_paint :: "'a world_scheme \<Rightarrow> 'a world_scheme option" where
  "clutter_effect_real_paint s =
     (case clutter_offscreen_effect_pre_paint s of
        None \<Rightarrow> None
      | Some (pre_paint_succeeded, s1) \<Rightarrow>
          let s2 = clutter_actor_continue_paint s1
          in if pre_paint_succeeded then clutter_offscreen_effect_post_paint s2 else Some s2)"

text \<open>
  The top-level paint operation; \<open>actor_dirty\<close> is
  \<open>flags & CLUTTER_EFFECT_PAINT_ACTOR_DIRTY\<close>.
\<close>

definition clutter_offscreen_effect_paint :: "'a world_scheme \<Rightarrow> bool \<Rightarrow> 'a world_scheme option" where
  "clutter_offscreen_effect_paint s actor_dirty =
     (if \<not> priv_actor s \<or> \<not> stage_current_camera s < length (stage_cameras s) then None
      else
        let index = stage_current_camera s
        in case get_per_camera_state s index of
             None \<Rightarrow> None
           | Some s1 \<Rightarrow>
               let cs = priv_camera_state s1 ! index;
                   matrix = cogl_modelview s1
               in if offscreen cs = None \<or> actor_dirty \<or> matrix \<noteq> last_matrix_drawn cs \<or>
                     valid_for_age cs \<noteq> age (stage_cameras s1 ! camera cs)
                  then (case clutter_effect_real_paint s1 of
                          None \<Rightarrow> None
                        | Some s2 \<Rightarrow>
                            Some (s2\<lparr>priv_camera_state :=
                                       (priv_camera_state s2)
                                         [index := (priv_camera_state s2 ! index)
                                            \<lparr>valid_for_age := age (stage_cameras s2 ! camera cs)\<rparr>]\<rparr>))
                  else clutter_offscreen_effect_paint_texture s1)"

section \<open>The blur effect\<close>

text \<open>
  The convolution snippet that \<open>get_blur_pipeline\<close> generates, by its
  structure rather than as GLSL text: the length of the \<open>factors\<close> array it
  declares, and one sample per loop iteration (whether it assigns with \<open>=\<close>
  rather than \<open>+=\<close>, the \<open>pixel_step\<close> multiple it adds to the texture
  coordinate, if any, and the index of its factor).
\<close>

record BlurSnippet =
  snippet_n_factors :: int
  snippet_samples :: "(bool \<times> int option \<times> int) list"

text \<open>
  The blur class with the Cogl state it works on: \<open>klass->pipeline_cache\<close>
  (a hash table from radius to pipeline), the snippet attached to layer 0 of a
  pipeline, the float uniforms of a pipeline (a uniform location is
  represented by the uniform's name) and its blend string.
\<close>

record BlurContext = CoglContext +
  pipeline_cache :: "int \<Rightarrow> handle option"
  cogl_layer_snippet :: "handle \<Rightarrow> BlurSnippet option"
  cogl_uniform_float :: "handle \<Rightarrow> string \<Rightarrow> real list option"
  cogl_blend :: "handle \<Rightarrow> string option"

record ClutterBlurEffect =
  actor :: bool
  radius :: int
  sigma :: real
  tex_width :: int
  tex_height :: int
  vertical_texture_dirty :: bool
  horizontal_texture :: "handle option"
  vertical_texture :: "handle option"
  vertical_fbo :: "handle option"
  horizontal_pipeline :: "handle option"
  horizontal_pixel_step_uniform :: string
  horizontal_factors_uniform :: string
  vertical_pipeline :: "handle option"
  vertical_pixel_step_uniform :: string
  vertical_factors_uniform :: string

text \<open>
  Modelled from the spec: \<open>clutter_actor_meta_set_enabled\<close>, whose source is
  not part of the repository's files; it writes the effect's enabled flag
  that \<open>clutter_actor_meta_get_enabled\<close> reads (the spec's ``the effect is
  enabled'' precondition of PRE\_PAINT).
\<close>

definition clutter_actor_meta_set_enabled :: "bool \<Rightarrow> 'a world_scheme \<Rightarrow> 'a world_scheme" where
  "clutter_actor_meta_set_enabled is_enabled s = s\<lparr>meta_enabled := is_enabled\<rparr>"

definition clutter_blur_effect_pre_paint ::
  "ClutterBlurEffect \<Rightarrow> 'a world_scheme \<Rightarrow> (bool \<times> ClutterBlurEffect \<times> 'a world_scheme) option" where
  "clutter_blur_effect_pre_paint self s =
     (if \<not> meta_enabled s then Some (False, self, s)
      else
        let self1 = self\<lparr>actor := meta_actor s\<rparr>
        in if \<not> actor self1 then Some (False, self1, s)
           else if \<not> feature_shaders_glsl s then
             Some (False, self1,
                   clutter_actor_meta_set_enabled False
                     (g_warning ''Unable to use the ShaderEffect: the graphics hardware or the current GL driver does not implement support for the GLSL shading language.'' s))
           else (case clutter_offscreen_effect_pre_paint s of
                   None \<Rightarrow> None
                 | Some (ok, s1) \<Rightarrow> Some (ok, self1, s1)))"

text \<open>The loop of \<open>get_blur_pipeline\<close> over \<open>i = 0 .. radius * 2\<close>.\<close>

definition blur_samples :: "int \<Rightarrow> (bool \<times> int option \<times> int) list" where
  "blur_samples r =
     map (\<lambda>i. (i = 0, if i \<noteq> r then Some (i - r) else None, i)) [0..r * 2]"

definition get_blur_pipeline :: "'a BlurContext_scheme \<Rightarrow> int \<Rightarrow> handle \<times> 'a BlurContext_scheme" where
  "get_blur_pipeline klass r =
     (case pipeline_cache klass r of
        Some p \<Rightarrow> (p, klass)
      | None \<Rightarrow>
          let (snippet, k1) = cogl_object_new klass;
              (p, k2) = cogl_pipeline_new k1;
              k3 = k2\<lparr>cogl_layer_snippet :=
                        (cogl_layer_snippet k2)
                          (p := Some \<lparr>snippet_n_factors = r * 2 + 1,
                                      snippet_samples = blur_samples r\<rparr>)\<rparr>;
              k4 = cogl_object_unref snippet k3
          in (p, k4\<lparr>pipeline_cache := (pipeline_cache k4)(r := Some p)\<rparr>))"

definition cogl_pipeline_set_uniform_float ::
  "handle option \<Rightarrow> string \<Rightarrow> real list \<Rightarrow> 'a BlurContext_scheme \<Rightarrow> 'a BlurContext_scheme" where
  "cogl_pipeline_set_uniform_float pl location v k =
     (case pl of
        None \<Rightarrow> k
      | Some p \<Rightarrow> k\<lparr>cogl_uniform_float := (cogl_uniform_float k)(p := (cogl_uniform_float k p)(location := Some v))\<rparr>)"

definition update_horizontal_pipeline_texture ::
  "ClutterBlurEffect \<Rightarrow> 'a BlurContext_scheme \<Rightarrow> 'a BlurContext_scheme" where
  "update_horizontal_pipeline_texture self k =
     (let k1 = (case horizontal_pipeline self of
                  None \<Rightarrow> k
                | Some p \<Rightarrow> cogl_pipeline_set_layer_texture p (horizontal_texture self) k)
      in cogl_pipeline_set_uniform_float (horizontal_pipeline self) (horizontal_pixel_step_uniform self)
           [1 / real_of_int (tex_width self), 0] k1)"

definition update_vertical_pipeline_texture ::
  "ClutterBlurEffect \<Rightarrow> 'a BlurContext_scheme \<Rightarrow> 'a BlurContext_scheme" where
  "update_vertical_pipeline_texture self k =
     (let k1 = (case vertical_pipeline self of
                  None \<Rightarrow> k
                | Some p \<Rightarrow> cogl_pipeline_set_layer_texture p (vertical_texture self) k)
      in cogl_pipeline_set_uniform_float (vertical_pipeline self) (vertical_pixel_step_uniform self)
           [0, 1 / real_of_int (tex_height self)] k1)"

text \<open>\<open>radius = floorf (ceilf (6 * sigma) / 2.0f)\<close>.\<close>

definition blur_radius :: "real \<Rightarrow> int" where
  "blur_radius sg = \<lfloor>real_of_int \<lceil>6 * sg\<rceil> / 2\<rfloor>"

text \<open>The contents of the \<open>factors\<close> array at the end of \<open>clutter_blur_effect_set_sigma_real\<close>.\<close>

definition blur_factors :: "real \<Rightarrow> int \<Rightarrow> real list" where
  "blur_factors sg r =
     (if r = 0 then [1]
      else
        let raw = map (\<lambda>i. (exp 1 powr (real_of_int (- (i * i)) / (2 * sg * sg)))
                             / sqrt (2 * pi * sg * sg)) [- r..r];
            sum = foldl (+) 0 raw
        in map (\<lambda>f. f / sum) raw)"

definition clutter_blur_effect_set_sigma_real ::
  "ClutterBlurEffect \<Rightarrow> real \<Rightarrow> 'a BlurContext_scheme \<Rightarrow> ClutterBlurEffect \<times> 'a BlurContext_scheme" where
  "clutter_blur_effect_set_sigma_real self sg k =
     (if sigma self = sg then (self, k)
      else
        let r = blur_radius sg;
            (self1, k1) =
              (if horizontal_pipeline self \<noteq> None \<and> r \<noteq> radius self then
                 (self\<lparr>horizontal_pipeline := None, vertical_pipeline := None\<rparr>,
                  (case vertical_pipeline self of
                     None \<Rightarrow> (\<lambda>c. c)
                   | Some vp \<Rightarrow> cogl_object_unref vp)
                    ((case horizontal_pipeline self of
                        None \<Rightarrow> (\<lambda>c. c)
                      | Some hp \<Rightarrow> cogl_object_unref hp) k))
               else (self, k));
            (self2, k2) =
              (if horizontal_pipeline self1 = None then
                 (let (base_pipeline, ka) = get_blur_pipeline k1 r;
                      (hp, kb) = cogl_pipeline_copy base_pipeline ka;
                      selfa = self1\<lparr>horizontal_pipeline := Some hp,
                                    horizontal_pixel_step_uniform := ''pixel_step'',
                                    horizontal_factors_uniform := ''factors''\<rparr>;
                      kc = update_horizontal_pipeline_texture selfa kb;
                      (vp, kd) = cogl_pipeline_copy base_pipeline kc;
                      selfb = selfa\<lparr>vertical_pipeline := Some vp,
                                    vertical_pixel_step_uniform := ''pixel_step'',
                                    vertical_factors_uniform := ''factors''\<rparr>;
                      ke = update_vertical_pipeline_texture selfb kd
                  in (selfb, ke\<lparr>cogl_blend := (cogl_blend ke)(hp := Some ''RGBA = ADD (SRC_COLOR, 0)'')\<rparr>))
               else (self1, k1));
            factors = blur_factors sg r;
            k3 = cogl_pipeline_set_uniform_float (vertical_pipeline self2) (vertical_factors_uniform self2)
                   factors
                   (cogl_pipeline_set_uniform_float (horizontal_pipeline self2)
                      (horizontal_factors_uniform self2) factors k2)
        in (self2\<lparr>sigma := sg, radius := r, vertical_texture_dirty := True\<rparr>, k3))"

text \<open>
  A new instance: the zero-filled structure on which
  \<open>clutter_blur_effect_init\<close> calls
  \<open>clutter_blur_effect_set_sigma_real (self, 0.84089642f)\<close>.
\<close>

definition blur_zeroed :: ClutterBlurEffect where
  "blur_zeroed =
     \<lparr>actor = False, radius = 0, sigma = 0, tex_width = 0, tex_height = 0,
      vertical_texture_dirty = False, horizontal_texture = None, vertical_texture = None,
      vertical_fbo = None, horizontal_pipeline = None, horizontal_pixel_step_uniform = [],
      horizontal_factors_uniform = [], vertical_pipeline = None,
      vertical_pixel_step_uniform = [], vertical_factors_uniform = []\<rparr>"

definition clutter_blur_effect_init :: "'a BlurContext_scheme \<Rightarrow> ClutterBlurEffect \<times> 'a BlurContext_scheme" where
  "clutter_blur_effect_init k = clutter_blur_effect_set_sigma_real blur_zeroed (84089642 / 100000000) k"

section \<open>The shader effect\<close>

datatype ClutterShaderType = CLUTTER_VERTEX_SHADER | CLUTTER_FRAGMENT_SHADER

datatype CoglSnippetHook = COGL_SNIPPET_HOOK_VERTEX | COGL_SNIPPET_HOOK_FRAGMENT

record CoglSnippet =
  snippet_hook :: CoglSnippetHook
  snippet_declarations :: "string option"
  snippet_replace :: "string option"

record ShaderContext = CoglContext +
  cogl_snippet :: "handle \<Rightarrow> CoglSnippet option"
  cogl_pipeline_snippets :: "handle \<Rightarrow> handle list"

text \<open>The fields of \<open>ClutterShaderEffectPrivate\<close> that the shader source touches.\<close>

record ClutterShaderEffectPrivate =
  priv_shader_type :: ClutterShaderType
  priv_pipeline :: "handle option"
  priv_snippet :: "handle option"

definition clutter_shader_effect_create_snippet ::
  "ClutterShaderEffectPrivate \<Rightarrow> string \<Rightarrow> 'a ShaderContext_scheme \<Rightarrow> handle \<times> 'a ShaderContext_scheme" where
  "clutter_shader_effect_create_snippet priv source c =
     (let (snippet, c1) = cogl_object_new c;
          hook = (case priv_shader_type priv of
                    CLUTTER_FRAGMENT_SHADER \<Rightarrow> COGL_SNIPPET_HOOK_FRAGMENT
                  | CLUTTER_VERTEX_SHADER \<Rightarrow> COGL_SNIPPET_HOOK_VERTEX);
          wrapped_source = ''#define main clutter_shader_effect_main'' @ [CHR 0x0A] @ source @
                           [CHR 0x0A] @ ''#undef main'' @ [CHR 0x0A]
      in (snippet,
          c1\<lparr>cogl_snippet :=
               (cogl_snippet c1)
                 (snippet := Some \<lparr>snippet_hook = hook,
                                   snippet_declarations = Some wrapped_source,
                                   snippet_replace =
                                     Some (''clutter_shader_effect_main ();'' @ [CHR 0x0A])\<rparr>)\<rparr>))"

definition clutter_shader_effect_ensure_pipeline ::
  "ClutterShaderEffectPrivate \<Rightarrow> 'a ShaderContext_scheme \<Rightarrow> ClutterShaderEffectPrivate \<times> 'a ShaderContext_scheme" where
  "clutter_shader_effect_ensure_pipeline priv c =
     (case priv_pipeline priv of
        None \<Rightarrow> (let (p, c1) = cogl_pipeline_new c in (priv\<lparr>priv_pipeline := Some p\<rparr>, c1))
      | Some _ \<Rightarrow> (priv, c))"

definition cogl_pipeline_add_snippet :: "handle \<Rightarrow> handle \<Rightarrow> 'a ShaderContext_scheme \<Rightarrow> 'a ShaderContext_scheme" where
  "cogl_pipeline_add_snippet p snippet c =
     c\<lparr>cogl_pipeline_snippets := (cogl_pipeline_snippets c)(p := cogl_pipeline_snippets c p @ [snippet])\<rparr>"

text \<open>
  \<open>source\<close> is \<open>None\<close> for a \<open>NULL\<close> pointer.  The first component of the
  result is the \<open>gboolean\<close> returned.
\<close>

definition clutter_shader_effect_set_shader_source ::
  "ClutterShaderEffectPrivate \<Rightarrow> string option \<Rightarrow> 'a ShaderContext_scheme \<Rightarrow>
     bool \<times> ClutterShaderEffectPrivate \<times> 'a ShaderContext_scheme" where
  "clutter_shader_effect_set_shader_source priv source c =
     (case source of
        None \<Rightarrow> (False, priv, c)
      | Some src \<Rightarrow>
          if src = [] then (False, priv, c)
          else if priv_snippet priv \<noteq> None then (True, priv, c)
          else
            let (priv1, c1) = clutter_shader_effect_ensure_pipeline priv c;
                (snippet, c2) = clutter_shader_effect_create_snippet priv1 src c1;
                priv2 = priv1\<lparr>priv_snippet := Some snippet\<rparr>
            in (case priv_pipeline priv2 of
                  None \<Rightarrow> (True, priv2, c2)
                | Some p \<Rightarrow> (True, priv2, cogl_pipeline_add_snippet p snippet c2)))"

section \<open>A concrete scene\<close>

text \<open>
  The default \<open>create_texture\<close> of the class: a texture of the requested
  size, at least 1 by 1, unless Cogl cannot allocate it.
\<close>

definition clutter_offscreen_effect_real_create_texture :: "bool \<Rightarrow> int \<Rightarrow> int \<Rightarrow> (int \<times> int) option" where
  "clutter_offscreen_effect_real_create_texture cogl_ok w h =
     (if cogl_ok then Some (max w 1, max h 1) else None)"

definition uninitialised :: PerCameraState where
  "uninitialised =
     \<lparr>camera = 7, valid_for_age = 42, offscreen = Some 99, pipeline = Some 98, texture = Some 97,
      viewport_x_offset = 3, viewport_y_offset = 4, request_width = 5, request_height = 6,
      last_matrix_drawn = cogl_matrix_identity\<rparr>"

text \<open>
  A freshly initialised effect (\<open>cameras_age = -1\<close>, no entries) on a
  100 by 100 actor at (50, 50), on a stage with one camera whose viewport is
  800 by 600.
\<close>

definition scene :: world where
  "scene =
     \<lparr>cogl_next_handle = 0, cogl_refcount = (\<lambda>_. 0), cogl_texture_size = (\<lambda>_. (0, 0)),
      cogl_layer_texture = (\<lambda>_. None), cogl_pipeline_parent = (\<lambda>_. None),
      cogl_offscreen_ok = True, cogl_framebuffer = None,
      cogl_modelview = cogl_matrix_identity, cogl_matrix_stack = [],
      cogl_projection = cogl_matrix_identity, cogl_viewport = (0, 0, 800, 600),
      cogl_saved = [], cogl_cleared = [], cogl_drawn = [], warnings = [],
      stage_cameras_age = 0, stage_cameras = [\<lparr>viewport = (0, 0, 800, 600), age = 0\<rparr>],
      stage_current_camera = 0, stage_projection = cogl_matrix_identity,
      stage_size = (800, 600),
      actor_paint_box = Some \<lparr>x1 = 50, y1 = 50, x2 = 150, y2 = 150\<rparr>,
      actor_opacity_override = - 1, actor_paint_opacity = 255, actor_painted = [],
      create_texture = clutter_offscreen_effect_real_create_texture True,
      slice_garbage = (\<lambda>_. uninitialised),
      feature_shaders_glsl = True, meta_enabled = True, meta_actor = True, priv_actor = True,
      priv_camera_state = [], priv_cameras_age = - 1, priv_old_opacity_override = 0\<rparr>"

text \<open>The scene after the effect has been painted once.\<close>

definition painted_scene :: world where
  "painted_scene =
     (case clutter_offscreen_effect_paint scene False of Some s \<Rightarrow> s | None \<Rightarrow> scene)"

text \<open>
  The painted scene after a second camera has been added to the stage, which
  bumps the stage's camera generation.
\<close>

definition restaged_scene :: world where
  "restaged_scene =
     painted_scene\<lparr>stage_cameras_age := 1,
                   stage_cameras := [\<lparr>viewport = (0, 0, 400, 600), age = 0\<rparr>,
                                     \<lparr>viewport = (400, 0, 400, 600), age = 0\<rparr>]\<rparr>"

definition rebuilt_scene :: world where
  "rebuilt_scene =
     (case get_per_camera_state restaged_scene 0 of Some s \<Rightarrow> s | None \<Rightarrow> restaged_scene)"

text \<open>
  The fresh scene after \<open>get_per_camera_state\<close> has built its cache array,
  and two variants of the scene in which an allocation fails: of the offscreen
  buffer, and of the texture.
\<close>

definition synced_scene :: world where
  "synced_scene = (case get_per_camera_state scene 0 of Some s \<Rightarrow> s | None \<Rightarrow> scene)"



text \<open>
  The scene with the actor moved so that its paint box straddles the left
  edge of the viewport by 20 pixels, and the state \<open>pre_paint\<close> leaves.
\<close>

definition straddling_scene :: world where
  "straddling_scene = scene\<lparr>actor_paint_box := Some \<lparr>x1 = - 20, y1 = 50, x2 = 80, y2 = 150\<rparr>\<rparr>"

definition redirected :: "world \<Rightarrow> world" where
  "redirected s = (case clutter_offscreen_effect_pre_paint s of Some (ok, s') \<Rightarrow> s' | None \<Rightarrow> s)"

text \<open>
  The scene on a system without GLSL shaders, the scene with the effect
  detached from its actor on such a system, and the scene with the effect
  disabled.
\<close>

definition no_glsl_scene :: world where
  "no_glsl_scene = scene\<lparr>feature_shaders_glsl := False\<rparr>"

definition detached_scene :: world where
  "detached_scene = scene\<lparr>feature_shaders_glsl := False, meta_actor := False, priv_actor := False\<rparr>"

definition disabled_scene :: world where
  "disabled_scene = scene\<lparr>meta_enabled := False\<rparr>"

text \<open>
  A new fragment-shader effect in an empty Cogl context, and the result of
  setting its source once.
\<close>

definition shader_new :: ClutterShaderEffectPrivate where
  "shader_new = \<lparr>priv_shader_type = CLUTTER_FRAGMENT_SHADER, priv_pipeline = None, priv_snippet = None\<rparr>"

definition shader_context :: ShaderContext where
  "shader_context =
     \<lparr>cogl_next_handle = 0, cogl_refcount = (\<lambda>_. 0), cogl_texture_size = (\<lambda>_. (0, 0)),
      cogl_layer_texture = (\<lambda>_. None), cogl_pipeline_parent = (\<lambda>_. None),
      cogl_offscreen_ok = True, cogl_framebuffer = None,
      cogl_modelview = cogl_matrix_identity, cogl_matrix_stack = [],
      cogl_projection = cogl_matrix_identity, cogl_viewport = (0, 0, 800, 600),
      cogl_saved = [], cogl_cleared = [], cogl_drawn = [], warnings = [],
      cogl_snippet = (\<lambda>_. None), cogl_pipeline_snippets = (\<lambda>_. [])\<rparr>"

definition shader_installed :: "bool \<times> ClutterShaderEffectPrivate \<times> ShaderContext" where
  "shader_installed =
     clutter_shader_effect_set_shader_source shader_new (Some ''void main () { }'') shader_context"





section \<open>Auxiliary notions\<close>

text \<open>
  The entry of camera \<open>i\<close> is up to date: the effect has an actor, has seen
  the stage's current camera generation, and the entry is valid for the
  current age of its camera.
\<close>

definition in_sync :: "'a world_scheme \<Rightarrow> nat \<Rightarrow> bool" where
  "in_sync s i \<longleftrightarrow>
     priv_actor s \<and> stage_cameras_age s = priv_cameras_age s \<and>
     i < length (priv_camera_state s) \<and>
     camera (priv_camera_state s ! i) < length (stage_cameras s) \<and>
     age (stage_cameras s ! camera (priv_camera_state s ! i)) = valid_for_age (priv_camera_state s ! i)"

text \<open>
  The current camera's entry holds a painted image that is still good: it is
  up to date, it has its three handles, and the model-view matrix is the one
  the image was painted with.
\<close>

definition cached :: "'a world_scheme \<Rightarrow> handle \<Rightarrow> handle \<Rightarrow> handle \<Rightarrow> bool" where
  "cached s t f p \<longleftrightarrow>
     in_sync s (stage_current_camera s) \<and>
     stage_current_camera s < length (stage_cameras s) \<and>
     texture (priv_camera_state s ! stage_current_camera s) = Some t \<and>
     offscreen (priv_camera_state s ! stage_current_camera s) = Some f \<and>
     pipeline (priv_camera_state s ! stage_current_camera s) = Some p \<and>
     last_matrix_drawn (priv_camera_state s ! stage_current_camera s) = cogl_modelview s"

text \<open>\<open>n\<close> consecutive calls of the paint operation, none with the dirty flag.\<close>

fun paint_times :: "nat \<Rightarrow> 'a world_scheme \<Rightarrow> 'a world_scheme option" where
  "paint_times 0 s = Some s"
| "paint_times (Suc n) s =
     (case clutter_offscreen_effect_paint s False of
        None \<Rightarrow> None
      | Some s1 \<Rightarrow> paint_times n s1)"


section \<open>Unfolding rules\<close>

lemmas cogl_defs = cogl_object_new_def cogl_object_ref_def cogl_object_unref_def cogl_pipeline_new_def
  cogl_pipeline_copy_def cogl_pipeline_set_layer_texture_def cogl_texture_new_def
  cogl_offscreen_new_to_texture_def g_warning_def cogl_set_modelview_matrix_def
  cogl_set_projection_matrix_def cogl_set_viewport_def cogl_push_framebuffer_def
  cogl_pop_framebuffer_def cogl_push_matrix_def cogl_pop_matrix_def cogl_clear_def

lemmas cache_defs = update_fbo_def get_per_camera_state_def rebuild_camera_state_def
  invalidate_per_camera_state_def clutter_offscreen_effect_create_texture_def
  clutter_offscreen_effect_real_create_texture_def uninitialised_def

lemmas paint_defs = clutter_offscreen_effect_paint_def clutter_effect_real_paint_def
  clutter_offscreen_effect_pre_paint_def pre_paint_redirect_def
  clutter_offscreen_effect_post_paint_def
  clutter_offscreen_effect_paint_texture_def clutter_offscreen_effect_real_paint_target_def
  clutter_actor_continue_paint_def fbo_request_def float_to_int_def viewport_expand_def G_MAX_def
  cogl_matrix_identity_def cogl_matrix_scale_def cogl_matrix_translate_def cogl_ortho_matrix_def
  vec4_scale_def vec4_add_def

section \<open>The cache lookup\<close>

text \<open>
  \<open>invalidate_per_camera_state\<close> clears the pipeline and the offscreen buffer
  of an entry and touches nothing but reference counts; so does the rebuild of
  the array, apart from the array itself and the generation it records.
\<close>

lemma invalidate_entry:
  "invalidate_per_camera_state cs c = (cs1, c1) \<Longrightarrow>
     cs1 = cs\<lparr>pipeline := None, offscreen := None\<rparr>"
  by (auto simp: invalidate_per_camera_state_def split: option.splits)

lemma invalidate_frame_eq:
  "invalidate_per_camera_state cs s = (cs1, s1) \<Longrightarrow> s1 = s\<lparr>cogl_refcount := cogl_refcount s1\<rparr>"
  by (auto simp: invalidate_per_camera_state_def cogl_object_unref_def split: option.splits)

lemma invalidate_frame:
  assumes "invalidate_per_camera_state cs s = (cs1, s1)"
  shows "\<exists>rc. s1 = s\<lparr>cogl_refcount := rc\<rparr>"
  by (rule exI[of _ "cogl_refcount s1"]) (rule invalidate_frame_eq[OF assms])

lemma invalidate_all_frame:
  "invalidate_all css s = (css1, s1) \<Longrightarrow> \<exists>rc. s1 = s\<lparr>cogl_refcount := rc\<rparr>"
proof (induction css arbitrary: s css1 s1)
  case Nil
  then have "s1 = s\<lparr>cogl_refcount := cogl_refcount s\<rparr>" by simp
  then show ?case by blast
next
  case (Cons cs css)
  obtain cs' s' where a: "invalidate_per_camera_state cs s = (cs', s')"
    by (cases "invalidate_per_camera_state cs s")
  obtain r' s'' where b: "invalidate_all css s' = (r', s'')"
    by (cases "invalidate_all css s'")
  from Cons.prems a b have c: "s1 = s''" by simp
  from invalidate_frame[OF a] obtain rc1 where d: "s' = s\<lparr>cogl_refcount := rc1\<rparr>" by blast
  from Cons.IH[OF b] obtain rc2 where e: "s'' = s'\<lparr>cogl_refcount := rc2\<rparr>" by blast
  from c d e have "s1 = s\<lparr>cogl_refcount := rc2\<rparr>" by simp
  then show ?case by blast
qed

lemma rebuild_frame:
  "\<exists>rc css. rebuild_camera_state s =
     s\<lparr>cogl_refcount := rc, priv_camera_state := css, priv_cameras_age := stage_cameras_age s\<rparr>"
proof -
  obtain old s1 where a: "invalidate_all (priv_camera_state s) s = (old, s1)"
    by (cases "invalidate_all (priv_camera_state s) s")
  from invalidate_all_frame[OF a] obtain rc where b: "s1 = s\<lparr>cogl_refcount := rc\<rparr>" by blast
  have "rebuild_camera_state s = s1\<lparr>priv_camera_state := priv_camera_state (rebuild_camera_state s),
       priv_cameras_age := stage_cameras_age s1\<rparr>"
    using a by (simp add: rebuild_camera_state_def Let_def)
  with b have "rebuild_camera_state s = s\<lparr>cogl_refcount := rc,
      priv_camera_state := priv_camera_state (rebuild_camera_state s), priv_cameras_age := stage_cameras_age s\<rparr>"
    by simp
  then show ?thesis by blast
qed

lemma rebuild_entries:
  "i < length (priv_camera_state (rebuild_camera_state s)) \<Longrightarrow>
     offscreen (priv_camera_state (rebuild_camera_state s) ! i) = None \<and>
     pipeline (priv_camera_state (rebuild_camera_state s) ! i) = None \<and>
     texture (priv_camera_state (rebuild_camera_state s) ! i) = None \<and>
     camera (priv_camera_state (rebuild_camera_state s) ! i) = i"
  by (simp add: rebuild_camera_state_def Let_def split: prod.splits)

lemma in_sync_get: "in_sync s i \<Longrightarrow> get_per_camera_state s i = Some s"
  by (simp add: in_sync_def get_per_camera_state_def Let_def)

lemma get_per_camera_state_frame:
  assumes "get_per_camera_state s i = Some s1"
  shows "\<exists>rc css. s1 = s\<lparr>cogl_refcount := rc, priv_camera_state := css,
                          priv_cameras_age := stage_cameras_age s\<rparr>"
proof -
  define s0 where "s0 = (if stage_cameras_age s \<noteq> priv_cameras_age s then rebuild_camera_state s else s)"
  have "\<exists>rc css. s0 = s\<lparr>cogl_refcount := rc, priv_camera_state := css,
                          priv_cameras_age := stage_cameras_age s\<rparr>"
  proof (cases "stage_cameras_age s \<noteq> priv_cameras_age s")
    case True
    then show ?thesis using rebuild_frame[of s] by (simp add: s0_def)
  next
    case False
    then have "s0 = s\<lparr>cogl_refcount := cogl_refcount s, priv_camera_state := priv_camera_state s,
                          priv_cameras_age := stage_cameras_age s\<rparr>" by (simp add: s0_def)
    then show ?thesis by blast
  qed
  then obtain rc css where s0: "s0 = s\<lparr>cogl_refcount := rc, priv_camera_state := css,
                          priv_cameras_age := stage_cameras_age s\<rparr>" by blast
  show ?thesis
  proof (cases "age (stage_cameras s0 ! camera (priv_camera_state s0 ! i)) = valid_for_age (priv_camera_state s0 ! i)")
    case True
    with assms have "s1 = s0"
      by (simp add: get_per_camera_state_def s0_def[symmetric] Let_def split: if_splits)
    with s0 show ?thesis by blast
  next
    case False
    obtain cs1 s2 where inv: "invalidate_per_camera_state (priv_camera_state s0 ! i) s0 = (cs1, s2)"
      by (cases "invalidate_per_camera_state (priv_camera_state s0 ! i) s0")
    from invalidate_frame[OF inv] obtain rc2 where s2: "s2 = s0\<lparr>cogl_refcount := rc2\<rparr>" by blast
    from assms False inv have
      "s1 = s2\<lparr>priv_camera_state := (priv_camera_state s2)[i := cs1\<lparr>valid_for_age := age (stage_cameras s0 ! camera (priv_camera_state s0 ! i))\<rparr>]\<rparr>"
      by (simp add: get_per_camera_state_def s0_def[symmetric] Let_def split: if_splits)
    then have "s1 = s\<lparr>cogl_refcount := rc2, priv_camera_state := (priv_camera_state s2)[i := cs1\<lparr>valid_for_age := age (stage_cameras s0 ! camera (priv_camera_state s0 ! i))\<rparr>],
                          priv_cameras_age := stage_cameras_age s\<rparr>"
      by (simp add: s2 s0)
    then show ?thesis by blast
  qed
qed

lemma get_in_sync:
  assumes "get_per_camera_state s i = Some s1"
  shows "in_sync s1 i"
proof -
  define s0 where "s0 = (if stage_cameras_age s \<noteq> priv_cameras_age s then rebuild_camera_state s else s)"
  obtain rc css where r: "rebuild_camera_state s =
     s\<lparr>cogl_refcount := rc, priv_camera_state := css, priv_cameras_age := stage_cameras_age s\<rparr>"
    using rebuild_frame[of s] by blast
  have s0: "priv_actor s0" "stage_cameras_age s0 = priv_cameras_age s0"
    using assms r by (auto simp: s0_def get_per_camera_state_def split: if_splits)
  from assms have len: "i < length (priv_camera_state s0)"
    and cam: "camera (priv_camera_state s0 ! i) < length (stage_cameras s0)"
    by (simp_all add: get_per_camera_state_def s0_def Let_def split: if_splits)
  show ?thesis
  proof (cases "age (stage_cameras s0 ! camera (priv_camera_state s0 ! i)) = valid_for_age (priv_camera_state s0 ! i)")
    case True
    with assms have "s1 = s0"
      by (simp add: get_per_camera_state_def s0_def[symmetric] Let_def split: if_splits)
    with True s0 len cam show ?thesis by (simp add: in_sync_def)
  next
    case False
    obtain cs1 s2 where inv: "invalidate_per_camera_state (priv_camera_state s0 ! i) s0 = (cs1, s2)"
      by (cases "invalidate_per_camera_state (priv_camera_state s0 ! i) s0")
    from invalidate_frame[OF inv] obtain rc2 where s2: "s2 = s0\<lparr>cogl_refcount := rc2\<rparr>" by blast
    from assms False inv have
      "s1 = s2\<lparr>priv_camera_state := (priv_camera_state s2)[i := cs1\<lparr>valid_for_age := age (stage_cameras s0 ! camera (priv_camera_state s0 ! i))\<rparr>]\<rparr>"
      by (simp add: get_per_camera_state_def s0_def[symmetric] Let_def split: if_splits)
    with len cam s0 s2 invalidate_entry[OF inv]
    show ?thesis by (simp add: in_sync_def)
  qed
qed

lemma get_per_camera_state_offscreen:
  assumes "get_per_camera_state s i = Some s1"
    and "offscreen (priv_camera_state s1 ! i) \<noteq> None"
  shows "s1 = s"
proof -
  define s0 where "s0 = (if stage_cameras_age s \<noteq> priv_cameras_age s then rebuild_camera_state s else s)"
  from assms(1) have len: "i < length (priv_camera_state s0)"
    by (simp add: get_per_camera_state_def s0_def Let_def split: if_splits)
  have age_eq: "age (stage_cameras s0 ! camera (priv_camera_state s0 ! i)) = valid_for_age (priv_camera_state s0 ! i)"
  proof (rule ccontr)
    assume ne: "\<not> ?thesis"
    obtain cs1 s2 where inv: "invalidate_per_camera_state (priv_camera_state s0 ! i) s0 = (cs1, s2)"
      by (cases "invalidate_per_camera_state (priv_camera_state s0 ! i) s0")
    from invalidate_frame[OF inv] obtain rc2 where s2: "s2 = s0\<lparr>cogl_refcount := rc2\<rparr>" by blast
    from assms(1) ne inv have
      "s1 = s2\<lparr>priv_camera_state := (priv_camera_state s2)[i := cs1\<lparr>valid_for_age := age (stage_cameras s0 ! camera (priv_camera_state s0 ! i))\<rparr>]\<rparr>"
      by (simp add: get_per_camera_state_def s0_def[symmetric] Let_def split: if_splits)
    with len s2 invalidate_entry[OF inv]
    have "offscreen (priv_camera_state s1 ! i) = None" by simp
    with assms(2) show False by simp
  qed
  with assms(1) have s1: "s1 = s0"
    by (simp add: get_per_camera_state_def s0_def[symmetric] Let_def split: if_splits)
  show ?thesis
  proof (cases "stage_cameras_age s \<noteq> priv_cameras_age s")
    case True
    then have "s0 = rebuild_camera_state s" by (simp add: s0_def)
    with len rebuild_entries[of i s] assms(2) s1 show ?thesis by simp
  next
    case False
    then show ?thesis using s1 by (simp add: s0_def)
  qed
qed

section \<open>Target allocation\<close>

text \<open>
  C6.  If the entry that \<open>update_fbo\<close> looks up has an offscreen buffer and
  the requested width and height are the entry's stored request, then
  \<open>update_fbo\<close> returns \<open>TRUE\<close> and the whole state is as before the call:
  the entry with its offscreen buffer, texture and pipeline handles, and the
  Cogl context, in which no object was created or released.
\<close>

theorem update_fbo_noop:
  assumes "get_per_camera_state s i = Some s1"
    and "offscreen (priv_camera_state s1 ! i) \<noteq> None"
    and "request_width (priv_camera_state s1 ! i) = w"
    and "request_height (priv_camera_state s1 ! i) = h"
  shows "update_fbo s i w h = Some (True, s)"
  using assms get_per_camera_state_offscreen[OF assms(1,2)]
  by (simp add: update_fbo_def)

theorem update_fbo_noop_witness:
  "get_per_camera_state painted_scene 0 = Some painted_scene \<and>
   offscreen (priv_camera_state painted_scene ! 0) \<noteq> None \<and>
   request_width (priv_camera_state painted_scene ! 0) = 100 \<and>
   request_height (priv_camera_state painted_scene ! 0) = 100 \<and>
   update_fbo painted_scene 0 100 100 = Some (True, painted_scene)"
proof -
  have a: "get_per_camera_state painted_scene 0 = Some painted_scene"
    by (simp add: painted_scene_def scene_def cache_defs paint_defs cogl_defs Let_def)
  have b: "offscreen (priv_camera_state painted_scene ! 0) \<noteq> None"
    by (simp add: painted_scene_def scene_def cache_defs paint_defs cogl_defs Let_def)
  have c: "request_width (priv_camera_state painted_scene ! 0) = 100"
    by (simp add: painted_scene_def scene_def cache_defs paint_defs cogl_defs Let_def)
  have d: "request_height (priv_camera_state painted_scene ! 0) = 100"
    by (simp add: painted_scene_def scene_def cache_defs paint_defs cogl_defs Let_def)
  from a b c d update_fbo_noop[OF a b c d] show ?thesis by simp
qed

subsection \<open>Failure and success of the allocation\<close>




lemma in_sync_offsets:
  assumes "in_sync s i"
  shows "in_sync (s\<lparr>priv_camera_state :=
                      (priv_camera_state s)[i := (priv_camera_state s ! i)
                         \<lparr>viewport_x_offset := xo, viewport_y_offset := yo\<rparr>]\<rparr>) i"
  using assms by (simp add: in_sync_def)

lemma pre_paint_update_fbo:
  assumes en: "meta_enabled s" and act: "priv_actor s"
    and cur: "stage_current_camera s < length (stage_cameras s)"
    and g: "get_per_camera_state s (stage_current_camera s) = Some s1"
    and rq: "fbo_request (actor_paint_box s) (viewport (stage_cameras s ! stage_current_camera s)) =
               (fw, fh, xo, yo)"
  shows "clutter_offscreen_effect_pre_paint s =
           (case update_fbo
                   (s1\<lparr>priv_camera_state :=
                         (priv_camera_state s1)[stage_current_camera s :=
                            (priv_camera_state s1 ! stage_current_camera s)
                              \<lparr>viewport_x_offset := xo, viewport_y_offset := yo\<rparr>]\<rparr>)
                   (stage_current_camera s) (float_to_int fw) (float_to_int fh) of
              None \<Rightarrow> None
            | Some (False, s3) \<Rightarrow> Some (False, s3)
            | Some (True, s3) \<Rightarrow>
                (case (texture (priv_camera_state s3 ! stage_current_camera s),
                       offscreen (priv_camera_state s3 ! stage_current_camera s)) of
                   (Some t, Some f) \<Rightarrow>
                     Some (True, pre_paint_redirect s3 (stage_current_camera s)
                                   (viewport (stage_cameras s ! stage_current_camera s)) t f)
                 | _ \<Rightarrow> None))"
proof -
  from get_per_camera_state_frame[OF g] obtain rc css where
    s1: "s1 = s\<lparr>cogl_refcount := rc, priv_camera_state := css, priv_cameras_age := stage_cameras_age s\<rparr>"
    by blast
  have f: "stage_cameras s1 = stage_cameras s" "actor_paint_box s1 = actor_paint_box s"
    by (simp_all add: s1)
  show ?thesis
    using en act cur g rq f
    by (simp add: clutter_offscreen_effect_pre_paint_def Let_def)
qed

lemma update_fbo_success_frame:
  assumes sync: "in_sync s i" and r: "update_fbo s i w h = Some (True, s3)"
  shows "s3 = s\<lparr>cogl_next_handle := cogl_next_handle s3, cogl_refcount := cogl_refcount s3,
                 cogl_texture_size := cogl_texture_size s3, cogl_layer_texture := cogl_layer_texture s3,
                 cogl_pipeline_parent := cogl_pipeline_parent s3,
                 priv_camera_state := priv_camera_state s3\<rparr>"
  using r
  by (auto simp: update_fbo_def in_sync_get[OF sync] Let_def cogl_defs
          clutter_offscreen_effect_create_texture_def split: option.splits prod.splits if_splits)

lemma update_fbo_success_entry:
  assumes sync: "in_sync s i" and r: "update_fbo s i w h = Some (True, s3)"
  shows "priv_camera_state s3 =
           (priv_camera_state s)[i := (priv_camera_state s ! i)
              \<lparr>pipeline := pipeline (priv_camera_state s3 ! i),
               texture := texture (priv_camera_state s3 ! i),
               offscreen := offscreen (priv_camera_state s3 ! i),
               request_width := w, request_height := h\<rparr>] \<and>
         offscreen (priv_camera_state s3 ! i) \<noteq> None \<and>
         (pipeline (priv_camera_state s ! i) \<noteq> None \<or> offscreen (priv_camera_state s ! i) = None
            \<longrightarrow> pipeline (priv_camera_state s3 ! i) \<noteq> None) \<and>
         (texture (priv_camera_state s ! i) \<noteq> None \<or> offscreen (priv_camera_state s ! i) = None
            \<longrightarrow> texture (priv_camera_state s3 ! i) \<noteq> None)"
proof -
  from sync have len: "i < length (priv_camera_state s)" by (simp add: in_sync_def)
  show ?thesis
  proof (cases "request_width (priv_camera_state s ! i) = w \<and>
                request_height (priv_camera_state s ! i) = h \<and>
                offscreen (priv_camera_state s ! i) \<noteq> None")
    case True
    with r have "s3 = s" by (simp add: update_fbo_def in_sync_get[OF sync])
    with True show ?thesis by (auto simp: list_update_same_conv)
  next
    case False
    with r len show ?thesis
      by (auto simp: update_fbo_def in_sync_get[OF sync] Let_def cogl_defs
          clutter_offscreen_effect_create_texture_def split: option.splits prod.splits if_splits)
  qed
qed




section \<open>The paint cycle\<close>

lemma in_sync_update_fbo:
  assumes sync: "in_sync s i" and r: "update_fbo s i w h = Some (True, s3)"
  shows "in_sync s3 i"
proof -
  note fr = update_fbo_success_frame[OF sync r]
  note en = update_fbo_success_entry[OF sync r]
  from sync have len: "i < length (priv_camera_state s)" by (simp add: in_sync_def)
  have a: "priv_actor s3 = priv_actor s" "stage_cameras_age s3 = stage_cameras_age s"
    "priv_cameras_age s3 = priv_cameras_age s" "stage_cameras s3 = stage_cameras s"
    by (subst fr, simp)+
  have b: "length (priv_camera_state s3) = length (priv_camera_state s)"
    "camera (priv_camera_state s3 ! i) = camera (priv_camera_state s ! i)"
    "valid_for_age (priv_camera_state s3 ! i) = valid_for_age (priv_camera_state s ! i)"
    using len by (subst conjunct1[OF en], simp)+
  from sync a b show ?thesis by (simp add: in_sync_def)
qed

lemma update_fbo_success_frame_ex:
  assumes sync: "in_sync s i" and r: "update_fbo s i w h = Some (True, s3)"
  shows "\<exists>nh rc ts lt pp css.
           s3 = s\<lparr>cogl_next_handle := nh, cogl_refcount := rc, cogl_texture_size := ts,
                   cogl_layer_texture := lt, cogl_pipeline_parent := pp, priv_camera_state := css\<rparr>"
  using update_fbo_success_frame[OF sync r] by blast

text \<open>What a successful \<open>pre_paint\<close> has done.\<close>

lemma pre_paint_success:
  assumes pp: "clutter_offscreen_effect_pre_paint s = Some (True, s')"
  shows "\<exists>s3 t f nh rc ts lt pp css pca.
           s' = pre_paint_redirect s3 (stage_current_camera s)
                  (viewport (stage_cameras s ! stage_current_camera s)) t f \<and>
           in_sync s3 (stage_current_camera s) \<and>
           stage_current_camera s < length (stage_cameras s) \<and>
           texture (priv_camera_state s3 ! stage_current_camera s) = Some t \<and>
           offscreen (priv_camera_state s3 ! stage_current_camera s) = Some f \<and>
           ((offscreen (priv_camera_state s ! stage_current_camera s) \<noteq> None \<longrightarrow>
             pipeline (priv_camera_state s ! stage_current_camera s) \<noteq> None) \<longrightarrow>
            pipeline (priv_camera_state s3 ! stage_current_camera s) \<noteq> None) \<and>
           (viewport_x_offset (priv_camera_state s3 ! stage_current_camera s) =
              fst (snd (snd (fbo_request (actor_paint_box s)
                               (viewport (stage_cameras s ! stage_current_camera s)))))) \<and>
           (viewport_y_offset (priv_camera_state s3 ! stage_current_camera s) =
              snd (snd (snd (fbo_request (actor_paint_box s)
                               (viewport (stage_cameras s ! stage_current_camera s)))))) \<and>
           s3 = s\<lparr>cogl_next_handle := nh, cogl_refcount := rc, cogl_texture_size := ts,
                   cogl_layer_texture := lt, cogl_pipeline_parent := pp,
                   priv_camera_state := css, priv_cameras_age := pca\<rparr> \<and>
           (in_sync s (stage_current_camera s) \<longrightarrow>
              camera (priv_camera_state s3 ! stage_current_camera s) =
                camera (priv_camera_state s ! stage_current_camera s) \<and>
              length (priv_camera_state s3) = length (priv_camera_state s))"
proof -
  define i where "i = stage_current_camera s"
  from pp have en: "meta_enabled s" and act: "priv_actor s"
    and cur: "stage_current_camera s < length (stage_cameras s)"
    by (auto simp: clutter_offscreen_effect_pre_paint_def split: if_splits)
  from pp en act cur obtain s1 where g: "get_per_camera_state s i = Some s1"
    by (auto simp: clutter_offscreen_effect_pre_paint_def i_def Let_def split: option.splits)
  obtain fw fh xo yo where rq:
    "fbo_request (actor_paint_box s) (viewport (stage_cameras s ! stage_current_camera s)) = (fw, fh, xo, yo)"
    by (cases "fbo_request (actor_paint_box s) (viewport (stage_cameras s ! stage_current_camera s))") auto
  define s2 where "s2 = s1\<lparr>priv_camera_state :=
                            (priv_camera_state s1)[i := (priv_camera_state s1 ! i)
                                 \<lparr>viewport_x_offset := xo, viewport_y_offset := yo\<rparr>]\<rparr>"
  from get_per_camera_state_frame[OF g] obtain rc1 css1 where
    s1: "s1 = s\<lparr>cogl_refcount := rc1, priv_camera_state := css1, priv_cameras_age := stage_cameras_age s\<rparr>"
    by blast
  have sync1: "in_sync s1 i" by (rule get_in_sync[OF g])
  then have len: "i < length (priv_camera_state s1)" by (simp add: in_sync_def)
  have sync2: "in_sync s2 i" unfolding s2_def by (rule in_sync_offsets[OF sync1])
  note unf = pre_paint_update_fbo[OF en act cur g[unfolded i_def] rq, folded i_def, folded s2_def]
  from pp unf obtain s3 where u: "update_fbo s2 i (float_to_int fw) (float_to_int fh) = Some (True, s3)"
    by (auto split: option.splits bool.splits)
  from pp unf u obtain t f where t: "texture (priv_camera_state s3 ! i) = Some t"
    and f: "offscreen (priv_camera_state s3 ! i) = Some f"
    and s': "s' = pre_paint_redirect s3 i (viewport (stage_cameras s ! i)) t f"
    by (auto simp: i_def split: option.splits)
  have sync3: "in_sync s3 i" by (rule in_sync_update_fbo[OF sync2 u])
  note en3 = update_fbo_success_entry[OF sync2 u]
  from update_fbo_success_frame_ex[OF sync2 u] obtain nh rc ts lt pp css where
    "s3 = s2\<lparr>cogl_next_handle := nh, cogl_refcount := rc, cogl_texture_size := ts,
                   cogl_layer_texture := lt, cogl_pipeline_parent := pp, priv_camera_state := css\<rparr>"
    by blast
  then have s3: "s3 = s\<lparr>cogl_next_handle := nh, cogl_refcount := rc, cogl_texture_size := ts,
                   cogl_layer_texture := lt, cogl_pipeline_parent := pp,
                   priv_camera_state := css, priv_cameras_age := stage_cameras_age s\<rparr>"
    by (simp add: s2_def s1)
  have e2: "priv_camera_state s2 ! i = (priv_camera_state s1 ! i)\<lparr>viewport_x_offset := xo, viewport_y_offset := yo\<rparr>"
    using len by (simp add: s2_def)
  have len2: "i < length (priv_camera_state s2)" using len by (simp add: s2_def)
  have e3: "priv_camera_state s3 ! i = (priv_camera_state s2 ! i)
              \<lparr>pipeline := pipeline (priv_camera_state s3 ! i),
               texture := texture (priv_camera_state s3 ! i),
               offscreen := offscreen (priv_camera_state s3 ! i),
               request_width := float_to_int fw, request_height := float_to_int fh\<rparr>"
    using len2 by (subst conjunct1[OF en3]) simp
  have off: "viewport_x_offset (priv_camera_state s3 ! i) = xo" "viewport_y_offset (priv_camera_state s3 ! i) = yo"
    by (subst e3, simp add: e2)+
  have pl: "(offscreen (priv_camera_state s ! i) \<noteq> None \<longrightarrow> pipeline (priv_camera_state s ! i) \<noteq> None) \<longrightarrow>
            pipeline (priv_camera_state s3 ! i) \<noteq> None"
  proof
    assume H: "offscreen (priv_camera_state s ! i) \<noteq> None \<longrightarrow> pipeline (priv_camera_state s ! i) \<noteq> None"
    have "pipeline (priv_camera_state s1 ! i) \<noteq> None \<or> offscreen (priv_camera_state s1 ! i) = None"
    proof (cases "offscreen (priv_camera_state s1 ! i) = None")
      case True then show ?thesis by simp
    next
      case False
      from get_per_camera_state_offscreen[OF g False] have "s1 = s" .
      with False H show ?thesis by simp
    qed
    then have "pipeline (priv_camera_state s2 ! i) \<noteq> None \<or> offscreen (priv_camera_state s2 ! i) = None"
      by (simp add: e2)
    with en3 show "pipeline (priv_camera_state s3 ! i) \<noteq> None" by blast
  qed
  have cam: "in_sync s i \<longrightarrow>
              camera (priv_camera_state s3 ! i) = camera (priv_camera_state s ! i) \<and>
              length (priv_camera_state s3) = length (priv_camera_state s)"
  proof
    assume "in_sync s i"
    from in_sync_get[OF this] g have eq: "s1 = s" by simp
    have "camera (priv_camera_state s3 ! i) = camera (priv_camera_state s2 ! i)"
      by (subst e3) simp
    moreover have "length (priv_camera_state s3) = length (priv_camera_state s2)"
      by (subst conjunct1[OF en3]) simp
    moreover have "length (priv_camera_state s2) = length (priv_camera_state s1)"
      by (simp add: s2_def)
    ultimately show "camera (priv_camera_state s3 ! i) = camera (priv_camera_state s ! i) \<and>
              length (priv_camera_state s3) = length (priv_camera_state s)"
      by (simp add: e2 eq[symmetric])
  qed
  from s' sync3 cur t f pl off s3 rq cam show ?thesis
    unfolding i_def by (intro exI conjI) (assumption | simp)+
qed


text \<open>The compositing of a redirected paint, after the actor has painted.\<close>

lemma post_paint_after_redirect:
  assumes sync: "in_sync s3 (stage_current_camera s3)"
    and cur: "stage_current_camera s3 < length (stage_cameras s3)"
    and t: "texture (priv_camera_state s3 ! stage_current_camera s3) = Some t"
    and f: "offscreen (priv_camera_state s3 ! stage_current_camera s3) = Some f"
    and p: "pipeline (priv_camera_state s3 ! stage_current_camera s3) = Some p"
  shows "\<exists>s''. clutter_offscreen_effect_post_paint
               ((pre_paint_redirect s3 (stage_current_camera s3) vp t f)\<lparr>actor_painted := ap\<rparr>) =
             Some s'' \<and>
            s''\<lparr>cogl_drawn := cogl_drawn s3\<rparr> =
              s3\<lparr>priv_camera_state :=
                        (priv_camera_state s3)
                          [stage_current_camera s3 :=
                             (priv_camera_state s3 ! stage_current_camera s3)
                               \<lparr>last_matrix_drawn := cogl_modelview s3\<rparr>],
                      cogl_cleared := cogl_cleared s3 @ [Some f],
                      priv_old_opacity_override := actor_opacity_override s3,
                      actor_painted := ap\<rparr> \<and>
            map draw_pipeline (cogl_drawn s'') = map draw_pipeline (cogl_drawn s3) @ [p] \<and>
            map draw_texture (cogl_drawn s'') =
              map draw_texture (cogl_drawn s3) @ [cogl_layer_texture s3 p] \<and>
            map draw_framebuffer (cogl_drawn s'') =
              map draw_framebuffer (cogl_drawn s3) @ [cogl_framebuffer s3]"
  using assms
  by (simp add: clutter_offscreen_effect_post_paint_def pre_paint_redirect_def cogl_defs Let_def
       in_sync_get in_sync_def clutter_offscreen_effect_paint_texture_def
       clutter_offscreen_effect_real_paint_target_def split: prod.splits)

lemma redirect_opacity:
  "priv_old_opacity_override (pre_paint_redirect s3 i vp t f) = actor_opacity_override s3 \<and>
   actor_opacity_override (pre_paint_redirect s3 i vp t f) = 255 \<and>
   actor_painted (pre_paint_redirect s3 i vp t f) = actor_painted s3 \<and>
   cogl_framebuffer (pre_paint_redirect s3 i vp t f) = Some f \<and>
   meta_actor (pre_paint_redirect s3 i vp t f) = meta_actor s3 \<and>
   (i < length (priv_camera_state s3) \<longrightarrow>
      priv_camera_state (pre_paint_redirect s3 i vp t f) ! i =
        (priv_camera_state s3 ! i)\<lparr>last_matrix_drawn := cogl_modelview s3\<rparr>)"
  by (simp add: pre_paint_redirect_def cogl_defs Let_def split: prod.splits)

lemma redirect_viewport:
  "cogl_viewport (pre_paint_redirect s3 i (vx, vy, vw, vh) t f) =
     (- (viewport_x_offset (priv_camera_state s3 ! i) +
          viewport_expand (viewport_x_offset (priv_camera_state s3 ! i)) (fst (cogl_texture_size s3 t)) vw),
      - (viewport_y_offset (priv_camera_state s3 ! i) +
          viewport_expand (viewport_y_offset (priv_camera_state s3 ! i)) (snd (cogl_texture_size s3 t)) vh),
      vw + 2 * viewport_expand (viewport_x_offset (priv_camera_state s3 ! i)) (fst (cogl_texture_size s3 t)) vw,
      vh + 2 * viewport_expand (viewport_y_offset (priv_camera_state s3 ! i)) (snd (cogl_texture_size s3 t)) vh) \<and>
   cogl_projection (pre_paint_redirect s3 i (vx, vy, vw, vh) t f) =
     (if viewport_expand (viewport_x_offset (priv_camera_state s3 ! i)) (fst (cogl_texture_size s3 t)) vw > 0 \<or>
         viewport_expand (viewport_y_offset (priv_camera_state s3 ! i)) (snd (cogl_texture_size s3 t)) vh > 0
      then cogl_matrix_scale (stage_projection s3)
             (vw / (vw + 2 * viewport_expand (viewport_x_offset (priv_camera_state s3 ! i)) (fst (cogl_texture_size s3 t)) vw))
             (vh / (vh + 2 * viewport_expand (viewport_y_offset (priv_camera_state s3 ! i)) (snd (cogl_texture_size s3 t)) vh))
             1
      else stage_projection s3) \<and>
   cogl_texture_size (pre_paint_redirect s3 i (vx, vy, vw, vh) t f) = cogl_texture_size s3"
  by (simp add: pre_paint_redirect_def cogl_defs Let_def split: prod.splits)

lemma viewport_expand_left:
  "0 < d \<Longrightarrow> - d + real_of_int tw \<le> vw \<Longrightarrow> viewport_expand (- d) tw vw = d"
  by (simp add: viewport_expand_def)

lemma viewport_expand_inside:
  "0 \<le> off \<Longrightarrow> off + real_of_int tw \<le> vw \<Longrightarrow> viewport_expand off tw vw = 0"
  by (simp add: viewport_expand_def)


text \<open>
  C9.  Let \<open>pre_paint\<close> succeed, on an effect whose current entry has a
  pipeline whenever it has an offscreen buffer.  Then \<open>pre_paint\<close> has saved
  the actor's opacity override and set the override to \<open>0xff\<close>, the entry's
  offscreen buffer and pipeline are not \<open>NULL\<close>, and \<open>post_paint\<close>, run
  directly or after the actor has painted, leaves the actor's opacity
  override at the value it had before \<open>pre_paint\<close>.
\<close>

theorem opacity_override_restored:
  assumes pp: "clutter_offscreen_effect_pre_paint s = Some (True, s')"
    and H: "offscreen (priv_camera_state s ! stage_current_camera s) \<noteq> None \<longrightarrow>
            pipeline (priv_camera_state s ! stage_current_camera s) \<noteq> None"
  shows "priv_old_opacity_override s' = actor_opacity_override s \<and>
         actor_opacity_override s' = 255 \<and>
         offscreen (priv_camera_state s' ! stage_current_camera s) \<noteq> None \<and>
         pipeline (priv_camera_state s' ! stage_current_camera s) \<noteq> None \<and>
         (\<exists>s''. clutter_offscreen_effect_post_paint s' = Some s'' \<and>
                actor_opacity_override s'' = actor_opacity_override s) \<and>
         (\<exists>s''. clutter_offscreen_effect_post_paint (clutter_actor_continue_paint s') = Some s'' \<and>
                actor_opacity_override s'' = actor_opacity_override s)"
proof -
  from pre_paint_success[OF pp] obtain s3 t f nh rc ts lt pp css pca where
    s': "s' = pre_paint_redirect s3 (stage_current_camera s)
                  (viewport (stage_cameras s ! stage_current_camera s)) t f"
    and sync: "in_sync s3 (stage_current_camera s)"
    and cur: "stage_current_camera s < length (stage_cameras s)"
    and t: "texture (priv_camera_state s3 ! stage_current_camera s) = Some t"
    and f: "offscreen (priv_camera_state s3 ! stage_current_camera s) = Some f"
    and pl: "(offscreen (priv_camera_state s ! stage_current_camera s) \<noteq> None \<longrightarrow>
             pipeline (priv_camera_state s ! stage_current_camera s) \<noteq> None) \<longrightarrow>
            pipeline (priv_camera_state s3 ! stage_current_camera s) \<noteq> None"
    and s3: "s3 = s\<lparr>cogl_next_handle := nh, cogl_refcount := rc, cogl_texture_size := ts,
                   cogl_layer_texture := lt, cogl_pipeline_parent := pp,
                   priv_camera_state := css, priv_cameras_age := pca\<rparr>"
    by blast
  from pl H obtain p where p: "pipeline (priv_camera_state s3 ! stage_current_camera s) = Some p"
    by auto
  have fr: "stage_current_camera s3 = stage_current_camera s" "stage_cameras s3 = stage_cameras s"
    "actor_opacity_override s3 = actor_opacity_override s"
    by (simp_all add: s3)
  from sync have len: "stage_current_camera s < length (priv_camera_state s3)"
    by (simp add: in_sync_def)
  note ro = redirect_opacity[where ?s3.0 = s3 and i = "stage_current_camera s"
              and vp = "viewport (stage_cameras s ! stage_current_camera s)" and t = t and f = f,
              folded s']
  have A: "\<And>ap. \<exists>s''. clutter_offscreen_effect_post_paint (s'\<lparr>actor_painted := ap\<rparr>) = Some s'' \<and>
                actor_opacity_override s'' = actor_opacity_override s"
  proof -
    fix ap
    from post_paint_after_redirect[where ?s3.0 = s3 and t = t and f = f and p = p
           and vp = "viewport (stage_cameras s ! stage_current_camera s)" and ap = ap]
      sync cur t f p fr
    obtain s'' where pp2: "clutter_offscreen_effect_post_paint (s'\<lparr>actor_painted := ap\<rparr>) = Some s''"
      and eq: "s''\<lparr>cogl_drawn := cogl_drawn s3\<rparr> =
              s3\<lparr>priv_camera_state :=
                        (priv_camera_state s3)
                          [stage_current_camera s3 :=
                             (priv_camera_state s3 ! stage_current_camera s3)
                               \<lparr>last_matrix_drawn := cogl_modelview s3\<rparr>],
                      cogl_cleared := cogl_cleared s3 @ [Some f],
                      priv_old_opacity_override := actor_opacity_override s3,
                      actor_painted := ap\<rparr>"
      by (auto simp: s')
    have "actor_opacity_override s'' = actor_opacity_override (s''\<lparr>cogl_drawn := cogl_drawn s3\<rparr>)"
      by simp
    also have "\<dots> = actor_opacity_override s" by (simp add: eq fr)
    finally show "\<exists>s''. clutter_offscreen_effect_post_paint (s'\<lparr>actor_painted := ap\<rparr>) = Some s'' \<and>
                actor_opacity_override s'' = actor_opacity_override s"
      using pp2 by simp
  qed
  have B: "s'\<lparr>actor_painted := actor_painted s'\<rparr> = s'" by simp
  have C: "clutter_actor_continue_paint s' = s'\<lparr>actor_painted := actor_painted (clutter_actor_continue_paint s')\<rparr>"
    by (simp add: clutter_actor_continue_paint_def)
  from A[of "actor_painted s'"] B
  have D: "\<exists>s''. clutter_offscreen_effect_post_paint s' = Some s'' \<and>
                actor_opacity_override s'' = actor_opacity_override s" by simp
  from A[of "actor_painted (clutter_actor_continue_paint s')"] C
  have E: "\<exists>s''. clutter_offscreen_effect_post_paint (clutter_actor_continue_paint s') = Some s'' \<and>
                actor_opacity_override s'' = actor_opacity_override s" by simp
  from ro len f p fr D E show ?thesis by simp
qed

theorem opacity_override_restored_witness:
  "clutter_offscreen_effect_pre_paint painted_scene = Some (True, redirected painted_scene) \<and>
   offscreen (priv_camera_state painted_scene ! stage_current_camera painted_scene) \<noteq> None \<and>
   pipeline (priv_camera_state painted_scene ! stage_current_camera painted_scene) \<noteq> None \<and>
   actor_opacity_override painted_scene = - 1 \<and>
   priv_old_opacity_override (redirected painted_scene) = - 1 \<and>
   actor_opacity_override (redirected painted_scene) = 255 \<and>
   map_option actor_opacity_override
     (clutter_offscreen_effect_post_paint (redirected painted_scene)) = Some (- 1)"
proof -
  have a: "clutter_offscreen_effect_pre_paint painted_scene = Some (True, redirected painted_scene)"
    by (simp add: redirected_def painted_scene_def scene_def cache_defs paint_defs cogl_defs Let_def)
  have b: "offscreen (priv_camera_state painted_scene ! stage_current_camera painted_scene) \<noteq> None"
    and c: "pipeline (priv_camera_state painted_scene ! stage_current_camera painted_scene) \<noteq> None"
    and d: "actor_opacity_override painted_scene = - 1"
    by (simp_all add: painted_scene_def scene_def cache_defs paint_defs cogl_defs Let_def)
  from c have h: "offscreen (priv_camera_state painted_scene ! stage_current_camera painted_scene) \<noteq> None \<longrightarrow>
            pipeline (priv_camera_state painted_scene ! stage_current_camera painted_scene) \<noteq> None"
    by simp
  from opacity_override_restored[OF a h] a b c d show ?thesis by auto
qed

text \<open>
  C3.  Let \<open>pre_paint\<close> succeed for an actor with paint box \<open>box\<close>, under a
  camera with viewport \<open>(vx, vy, vw, vh)\<close>, with a texture of size
  \<open>tw\<close> by \<open>th\<close>.  If the box starts \<open>d > 0\<close> pixels left of the viewport
  and the texture's right edge is inside it, the viewport set for the offscreen
  buffer starts at 0 and is \<open>vw + 2 * d\<close> wide, and the projection is the
  stage's, scaled horizontally by \<open>vw / (vw + 2 * d)\<close>; if the box is also
  inside the viewport vertically (and the viewport has a height), the vertical
  scale is 1.  On an axis on which the box is inside the viewport, the
  viewport keeps its extent; if that holds on both axes, the projection is the
  stage's.
\<close>

theorem viewport_expansion:
  assumes pp: "clutter_offscreen_effect_pre_paint s = Some (True, s')"
    and vp: "viewport (stage_cameras s ! stage_current_camera s) = (vx, vy, vw, vh)"
    and box: "actor_paint_box s = Some box"
    and t: "texture (priv_camera_state s' ! stage_current_camera s) = Some t"
    and sz: "cogl_texture_size s' t = (tw, th)"
  shows "(x1 box - vx = - d \<and> 0 < d \<and> - d + real_of_int tw \<le> vw \<longrightarrow>
            fst (cogl_viewport s') = 0 \<and>
            fst (snd (snd (cogl_viewport s'))) = vw + 2 * d \<and>
            cogl_projection s' =
              cogl_matrix_scale (stage_projection s) (vw / (vw + 2 * d))
                (vh / (vh + 2 * viewport_expand (y1 box - vy) th vh)) 1) \<and>
         (x1 box - vx = - d \<and> 0 < d \<and> - d + real_of_int tw \<le> vw \<and>
          0 \<le> y1 box - vy \<and> y1 box - vy + real_of_int th \<le> vh \<and> vh \<noteq> 0 \<longrightarrow>
            cogl_projection s' = cogl_matrix_scale (stage_projection s) (vw / (vw + 2 * d)) 1 1) \<and>
         (0 \<le> x1 box - vx \<and> x1 box - vx + real_of_int tw \<le> vw \<longrightarrow>
            fst (cogl_viewport s') = - (x1 box - vx) \<and>
            fst (snd (snd (cogl_viewport s'))) = vw) \<and>
         (0 \<le> y1 box - vy \<and> y1 box - vy + real_of_int th \<le> vh \<longrightarrow>
            fst (snd (cogl_viewport s')) = - (y1 box - vy) \<and>
            snd (snd (snd (cogl_viewport s'))) = vh) \<and>
         (0 \<le> x1 box - vx \<and> x1 box - vx + real_of_int tw \<le> vw \<and>
          0 \<le> y1 box - vy \<and> y1 box - vy + real_of_int th \<le> vh \<longrightarrow>
            cogl_projection s' = stage_projection s)"
proof -
  from pre_paint_success[OF pp] obtain s3 t' f nh rc ts lt pp css pca where
    s': "s' = pre_paint_redirect s3 (stage_current_camera s)
                  (viewport (stage_cameras s ! stage_current_camera s)) t' f"
    and sync: "in_sync s3 (stage_current_camera s)"
    and t': "texture (priv_camera_state s3 ! stage_current_camera s) = Some t'"
    and xo: "viewport_x_offset (priv_camera_state s3 ! stage_current_camera s) =
              fst (snd (snd (fbo_request (actor_paint_box s)
                               (viewport (stage_cameras s ! stage_current_camera s)))))"
    and yo: "viewport_y_offset (priv_camera_state s3 ! stage_current_camera s) =
              snd (snd (snd (fbo_request (actor_paint_box s)
                               (viewport (stage_cameras s ! stage_current_camera s)))))"
    and s3: "s3 = s\<lparr>cogl_next_handle := nh, cogl_refcount := rc, cogl_texture_size := ts,
                   cogl_layer_texture := lt, cogl_pipeline_parent := pp,
                   priv_camera_state := css, priv_cameras_age := pca\<rparr>"
    by blast
  from sync have len: "stage_current_camera s < length (priv_camera_state s3)"
    by (simp add: in_sync_def)
  note ro = redirect_opacity[where ?s3.0 = s3 and i = "stage_current_camera s"
              and vp = "viewport (stage_cameras s ! stage_current_camera s)" and t = t' and f = f,
              folded s']
  from ro len t t' have tt: "t' = t" by simp
  note rv = redirect_viewport[where ?s3.0 = s3 and i = "stage_current_camera s"
              and vx = vx and vy = vy and vw = vw and vh = vh and t = t' and f = f,
              folded vp, folded s']
  from rv sz tt have sz3: "cogl_texture_size s3 t = (tw, th)" by simp
  have xo': "viewport_x_offset (priv_camera_state s3 ! stage_current_camera s) = x1 box - vx"
    and yo': "viewport_y_offset (priv_camera_state s3 ! stage_current_camera s) = y1 box - vy"
    by (simp_all add: xo yo vp box fbo_request_def)
  have P: "stage_projection s3 = stage_projection s" by (simp add: s3)
  show ?thesis
    using rv unfolding tt sz3 xo' yo' P
    by (auto simp: viewport_expand_left viewport_expand_inside)
qed

theorem viewport_expansion_witness:
  "(clutter_offscreen_effect_pre_paint straddling_scene = Some (True, redirected straddling_scene) \<and>
    viewport (stage_cameras straddling_scene ! stage_current_camera straddling_scene) = (0, 0, 800, 600) \<and>
    actor_paint_box straddling_scene = Some \<lparr>x1 = - 20, y1 = 50, x2 = 80, y2 = 150\<rparr> \<and>
    texture (priv_camera_state (redirected straddling_scene) ! stage_current_camera straddling_scene) = Some 1 \<and>
    cogl_texture_size (redirected straddling_scene) 1 = (100, 100) \<and>
    cogl_viewport (redirected straddling_scene) = (0, - 50, 840, 600) \<and>
    cogl_projection (redirected straddling_scene) =
      cogl_matrix_scale (stage_projection straddling_scene) (800 / 840) 1 1) \<and>
   (clutter_offscreen_effect_pre_paint scene = Some (True, redirected scene) \<and>
    viewport (stage_cameras scene ! stage_current_camera scene) = (0, 0, 800, 600) \<and>
    actor_paint_box scene = Some \<lparr>x1 = 50, y1 = 50, x2 = 150, y2 = 150\<rparr> \<and>
    texture (priv_camera_state (redirected scene) ! stage_current_camera scene) = Some 1 \<and>
    cogl_texture_size (redirected scene) 1 = (100, 100) \<and>
    cogl_viewport (redirected scene) = (- 50, - 50, 800, 600) \<and>
    cogl_projection (redirected scene) = stage_projection scene)"
proof -
  have a1: "clutter_offscreen_effect_pre_paint straddling_scene = Some (True, redirected straddling_scene)"
    by (simp add: redirected_def straddling_scene_def scene_def cache_defs paint_defs cogl_defs Let_def)
  have a2: "viewport (stage_cameras straddling_scene ! stage_current_camera straddling_scene) = (0, 0, 800, 600)"
    and a3: "actor_paint_box straddling_scene = Some \<lparr>x1 = - 20, y1 = 50, x2 = 80, y2 = 150\<rparr>"
    by (simp_all add: straddling_scene_def scene_def)
  have a4: "texture (priv_camera_state (redirected straddling_scene) ! stage_current_camera straddling_scene) = Some 1"
    and a5: "cogl_texture_size (redirected straddling_scene) 1 = (100, 100)"
    by (simp_all add: redirected_def straddling_scene_def scene_def cache_defs paint_defs cogl_defs Let_def)
  have b1: "clutter_offscreen_effect_pre_paint scene = Some (True, redirected scene)"
    by (simp add: redirected_def scene_def cache_defs paint_defs cogl_defs Let_def)
  have b2: "viewport (stage_cameras scene ! stage_current_camera scene) = (0, 0, 800, 600)"
    and b3: "actor_paint_box scene = Some \<lparr>x1 = 50, y1 = 50, x2 = 150, y2 = 150\<rparr>"
    by (simp_all add: scene_def)
  have b4: "texture (priv_camera_state (redirected scene) ! stage_current_camera scene) = Some 1"
    and b5: "cogl_texture_size (redirected scene) 1 = (100, 100)"
    by (simp_all add: redirected_def scene_def cache_defs paint_defs cogl_defs Let_def)
  have A: "cogl_viewport (redirected straddling_scene) = (0, - 50, 840, 600) \<and>
    cogl_projection (redirected straddling_scene) =
      cogl_matrix_scale (stage_projection straddling_scene) (800 / 840) 1 1"
    using viewport_expansion[OF a1 a2 a3 a4 a5, where d = 20]
    by (cases "cogl_viewport (redirected straddling_scene)") (simp add: viewport_expand_def)
  have B: "cogl_viewport (redirected scene) = (- 50, - 50, 800, 600) \<and>
    cogl_projection (redirected scene) = stage_projection scene"
    using viewport_expansion[OF b1 b2 b3 b4 b5, where d = 20]
    by (cases "cogl_viewport (redirected scene)") simp
  from a1 a2 a3 a4 a5 A b1 b2 b3 b4 b5 B show ?thesis by blast
qed

section \<open>Reuse of the cached image\<close>

lemma paint_texture_frame:
  assumes sync: "in_sync s (stage_current_camera s)"
    and r: "clutter_offscreen_effect_paint_texture s = Some s'"
  shows "s'\<lparr>cogl_drawn := cogl_drawn s\<rparr> = s \<and>
         length (cogl_drawn s') = Suc (length (cogl_drawn s)) \<and>
         map draw_texture (cogl_drawn s') =
           map draw_texture (cogl_drawn s) @
             [case pipeline (priv_camera_state s ! stage_current_camera s) of
                None \<Rightarrow> None | Some p \<Rightarrow> cogl_layer_texture s p]"
  using assms
  by (auto simp: cogl_defs Let_def in_sync_get in_sync_def clutter_offscreen_effect_paint_texture_def
       clutter_offscreen_effect_real_paint_target_def split: prod.splits option.splits if_splits)

lemma paint_texture_cached:
  assumes c: "cached s t f p"
  shows "\<exists>s'. clutter_offscreen_effect_paint_texture s = Some s'"
  using assms
  by (simp add: cached_def cogl_defs Let_def in_sync_get in_sync_def clutter_offscreen_effect_paint_texture_def
       clutter_offscreen_effect_real_paint_target_def split: prod.splits)

lemma paint_cached:
  assumes sync: "in_sync s (stage_current_camera s)"
    and cur: "stage_current_camera s < length (stage_cameras s)"
    and off: "offscreen (priv_camera_state s ! stage_current_camera s) \<noteq> None"
    and nd: "\<not> actor_dirty"
    and m: "cogl_modelview s = last_matrix_drawn (priv_camera_state s ! stage_current_camera s)"
  shows "clutter_offscreen_effect_paint s actor_dirty = clutter_offscreen_effect_paint_texture s"
  using assms
  by (auto simp: clutter_offscreen_effect_paint_def in_sync_get Let_def in_sync_def)

lemma update_fbo_succeeds:
  assumes sync: "in_sync s i"
    and off: "offscreen (priv_camera_state s ! i) = None"
    and ct: "create_texture s w h \<noteq> None"
    and ok: "cogl_offscreen_ok s"
  shows "\<exists>s3. update_fbo s i w h = Some (True, s3)"
  using off ct ok
  by (auto simp: update_fbo_def in_sync_get[OF sync] Let_def cogl_defs
          clutter_offscreen_effect_create_texture_def split: option.splits prod.splits)

lemma pre_paint_succeeds:
  assumes en: "meta_enabled s" and sync: "in_sync s (stage_current_camera s)"
    and cur: "stage_current_camera s < length (stage_cameras s)"
    and off: "offscreen (priv_camera_state s ! stage_current_camera s) = None"
    and rq: "fbo_request (actor_paint_box s) (viewport (stage_cameras s ! stage_current_camera s)) =
               (fw, fh, xo, yo)"
    and ct: "create_texture s (float_to_int fw) (float_to_int fh) \<noteq> None"
    and ok: "cogl_offscreen_ok s"
  shows "\<exists>s'. clutter_offscreen_effect_pre_paint s = Some (True, s')"
proof -
  define i where "i = stage_current_camera s"
  define s2 where "s2 = s\<lparr>priv_camera_state :=
                            (priv_camera_state s)[i := (priv_camera_state s ! i)
                                 \<lparr>viewport_x_offset := xo, viewport_y_offset := yo\<rparr>]\<rparr>"
  from sync have act: "priv_actor s" and len: "i < length (priv_camera_state s)"
    by (simp_all add: in_sync_def i_def)
  have g: "get_per_camera_state s (stage_current_camera s) = Some s" by (rule in_sync_get[OF sync])
  have sync2: "in_sync s2 i" unfolding s2_def i_def by (rule in_sync_offsets[OF sync])
  have off2: "offscreen (priv_camera_state s2 ! i) = None" using off len by (simp add: s2_def i_def)
  have ct2: "create_texture s2 (float_to_int fw) (float_to_int fh) \<noteq> None"
    and ok2: "cogl_offscreen_ok s2" using ct ok by (simp_all add: s2_def)
  from update_fbo_succeeds[OF sync2 off2 ct2 ok2] obtain s3 where
    u: "update_fbo s2 i (float_to_int fw) (float_to_int fh) = Some (True, s3)" by blast
  note en3 = update_fbo_success_entry[OF sync2 u]
  from en3 off2 obtain t f where "texture (priv_camera_state s3 ! i) = Some t"
    "offscreen (priv_camera_state s3 ! i) = Some f" by auto
  with u pre_paint_update_fbo[OF en act cur g rq, folded i_def, folded s2_def]
  show ?thesis by (simp add: i_def)
qed


lemma cached_paint:
  assumes c: "cached s t f p"
  shows "\<exists>s'. clutter_offscreen_effect_paint s False = Some s' \<and> cached s' t f p \<and>
              actor_painted s' = actor_painted s \<and>
              length (cogl_drawn s') = Suc (length (cogl_drawn s)) \<and>
              stage_current_camera s' = stage_current_camera s"
proof -
  from c have sync: "in_sync s (stage_current_camera s)"
    and cur: "stage_current_camera s < length (stage_cameras s)"
    and off: "offscreen (priv_camera_state s ! stage_current_camera s) \<noteq> None"
    and m: "cogl_modelview s = last_matrix_drawn (priv_camera_state s ! stage_current_camera s)"
    by (simp_all add: cached_def)
  have eq: "clutter_offscreen_effect_paint s False = clutter_offscreen_effect_paint_texture s"
    by (rule paint_cached[OF sync cur off _ m]) simp
  from paint_texture_cached[OF c] obtain s' where r: "clutter_offscreen_effect_paint_texture s = Some s'"
    by blast
  note fr = paint_texture_frame[OF sync r]
  define s0 where "s0 = s'\<lparr>cogl_drawn := cogl_drawn s\<rparr>"
  have s0: "s0 = s" using fr by (simp add: s0_def)
  have flds: "stage_current_camera s' = stage_current_camera s0" "priv_camera_state s' = priv_camera_state s0"
    "stage_cameras s' = stage_cameras s0" "cogl_modelview s' = cogl_modelview s0"
    "priv_actor s' = priv_actor s0" "stage_cameras_age s' = stage_cameras_age s0"
    "priv_cameras_age s' = priv_cameras_age s0" "actor_painted s' = actor_painted s0"
    by (simp_all add: s0_def)
  from c have "cached s' t f p" unfolding cached_def in_sync_def flds s0 .
  with eq r fr flds(1,8) s0 show ?thesis by simp
qed

lemma cached_paint_times:
  "cached s t f p \<Longrightarrow>
     \<exists>s'. paint_times n s = Some s' \<and> cached s' t f p \<and> actor_painted s' = actor_painted s \<and>
          length (cogl_drawn s') = length (cogl_drawn s) + n \<and>
          stage_current_camera s' = stage_current_camera s"
proof (induction n arbitrary: s)
  case 0
  then show ?case by simp
next
  case (Suc n)
  from cached_paint[OF Suc.prems] obtain s1 where
    a: "clutter_offscreen_effect_paint s False = Some s1" and b: "cached s1 t f p"
    and c: "actor_painted s1 = actor_painted s"
    and d: "length (cogl_drawn s1) = Suc (length (cogl_drawn s))"
    and e: "stage_current_camera s1 = stage_current_camera s" by blast
  from Suc.IH[OF b] obtain s' where
    "paint_times n s1 = Some s'" "cached s' t f p" "actor_painted s' = actor_painted s1"
    "length (cogl_drawn s') = length (cogl_drawn s1) + n"
    "stage_current_camera s' = stage_current_camera s1" by blast
  with a c d e show ?case by simp
qed


lemma first_paint:
  assumes en: "meta_enabled s" and ma: "meta_actor s" and act: "priv_actor s"
    and cur: "stage_current_camera s < length (stage_cameras s)"
    and g: "get_per_camera_state s (stage_current_camera s) = Some s1"
    and off: "offscreen (priv_camera_state s1 ! stage_current_camera s) = None"
    and rq: "fbo_request (actor_paint_box s) (viewport (stage_cameras s ! stage_current_camera s)) =
               (fw, fh, xo, yo)"
    and ct: "create_texture s (float_to_int fw) (float_to_int fh) \<noteq> None"
    and ok: "cogl_offscreen_ok s"
  shows "\<exists>s2 t f p. clutter_offscreen_effect_paint s False = Some s2 \<and> cached s2 t f p \<and>
           actor_painted s2 = actor_painted s @ [Some f] \<and>
           length (cogl_drawn s2) = Suc (length (cogl_drawn s)) \<and>
           stage_current_camera s2 = stage_current_camera s"
proof -
  define i where "i = stage_current_camera s"
  define vp where "vp = viewport (stage_cameras s ! i)"
  note cur_i = cur[folded i_def] and g_i = g[folded i_def] and off_i = off[folded i_def]
    and rq_i = rq[folded i_def]
  from get_per_camera_state_frame[OF g] obtain rc1 css1 where
    s1: "s1 = s\<lparr>cogl_refcount := rc1, priv_camera_state := css1, priv_cameras_age := stage_cameras_age s\<rparr>"
    by blast
  have i1: "stage_current_camera s1 = i" by (simp add: s1 i_def)
  have f1: "meta_enabled s1" "meta_actor s1" "priv_actor s1"
    "stage_cameras s1 = stage_cameras s" "actor_paint_box s1 = actor_paint_box s"
    "create_texture s1 = create_texture s" "cogl_offscreen_ok s1" "actor_painted s1 = actor_painted s"
    "cogl_drawn s1 = cogl_drawn s"
    using en ma act ok by (simp_all add: s1)
  have sync1: "in_sync s1 i" using get_in_sync[OF g] by (simp add: i_def)
  have "\<exists>s'. clutter_offscreen_effect_pre_paint s1 = Some (True, s')"
  proof (rule pre_paint_succeeds[where fw = fw and fh = fh and xo = xo and yo = yo])
    show "meta_enabled s1" by (rule f1)
    show "in_sync s1 (stage_current_camera s1)" unfolding i1 by (rule sync1)
    show "stage_current_camera s1 < length (stage_cameras s1)" unfolding i1 f1 by (rule cur_i)
    show "offscreen (priv_camera_state s1 ! stage_current_camera s1) = None" unfolding i1 by (rule off_i)
    show "fbo_request (actor_paint_box s1) (viewport (stage_cameras s1 ! stage_current_camera s1)) =
               (fw, fh, xo, yo)" unfolding i1 f1 by (rule rq_i)
    show "create_texture s1 (float_to_int fw) (float_to_int fh) \<noteq> None" unfolding f1 by (rule ct)
    show "cogl_offscreen_ok s1" by (rule f1)
  qed
  then obtain z where pp: "clutter_offscreen_effect_pre_paint s1 = Some (True, z)" by blast
  from pre_paint_success[OF pp, unfolded i1 f1, folded vp_def] obtain s3 t f nh rc ts lt pp css pca where
    z: "z = pre_paint_redirect s3 i vp t f"
    and sync3: "in_sync s3 i"
    and t: "texture (priv_camera_state s3 ! i) = Some t"
    and f: "offscreen (priv_camera_state s3 ! i) = Some f"
    and pl: "(offscreen (priv_camera_state s1 ! i) \<noteq> None \<longrightarrow>
             pipeline (priv_camera_state s1 ! i) \<noteq> None) \<longrightarrow>
            pipeline (priv_camera_state s3 ! i) \<noteq> None"
    and s3: "s3 = s1\<lparr>cogl_next_handle := nh, cogl_refcount := rc, cogl_texture_size := ts,
                   cogl_layer_texture := lt, cogl_pipeline_parent := pp,
                   priv_camera_state := css, priv_cameras_age := pca\<rparr>"
    and cam: "in_sync s1 i \<longrightarrow>
              camera (priv_camera_state s3 ! i) = camera (priv_camera_state s1 ! i) \<and>
              length (priv_camera_state s3) = length (priv_camera_state s1)"
    by blast
  from pl off_i obtain p where p: "pipeline (priv_camera_state s3 ! i) = Some p" by auto
  have i3: "stage_current_camera s3 = i" by (simp add: s3 i1)
  have f3: "meta_actor s3" "stage_cameras s3 = stage_cameras s"
    "actor_painted s3 = actor_painted s" "cogl_drawn s3 = cogl_drawn s" "priv_actor s3"
    using f1 by (simp_all add: s3)
  have cur3: "i < length (stage_cameras s3)" unfolding f3 by (rule cur_i)
  from sync3 have len3: "i < length (priv_camera_state s3)" by (simp add: in_sync_def)
  from cam sync1 have cam': "camera (priv_camera_state s3 ! i) = camera (priv_camera_state s1 ! i)"
    by simp
  note ro = redirect_opacity[where ?s3.0 = s3 and i = i and vp = vp and t = t and f = f, folded z]
  have cp: "clutter_actor_continue_paint z = z\<lparr>actor_painted := actor_painted s @ [Some f]\<rparr>"
    using ro f3 by (simp add: clutter_actor_continue_paint_def)
  note pa = post_paint_after_redirect[where ?s3.0 = s3 and t = t and f = f and p = p
           and vp = vp and ap = "actor_painted s @ [Some f]", unfolded i3, OF sync3 cur3 t f p,
           folded z, folded cp]
  from pa obtain s'' where po: "clutter_offscreen_effect_post_paint (clutter_actor_continue_paint z) = Some s''"
    and eq: "s''\<lparr>cogl_drawn := cogl_drawn s3\<rparr> =
              s3\<lparr>priv_camera_state :=
                        (priv_camera_state s3)
                          [i := (priv_camera_state s3 ! i)\<lparr>last_matrix_drawn := cogl_modelview s3\<rparr>],
                      cogl_cleared := cogl_cleared s3 @ [Some f],
                      priv_old_opacity_override := actor_opacity_override s3,
                      actor_painted := actor_painted s @ [Some f]\<rparr>"
    and dr: "map draw_pipeline (cogl_drawn s'') = map draw_pipeline (cogl_drawn s3) @ [p]"
    by blast
  define s0 where "s0 = s''\<lparr>cogl_drawn := cogl_drawn s3\<rparr>"
  have flds: "stage_current_camera s'' = stage_current_camera s0" "priv_camera_state s'' = priv_camera_state s0"
    "stage_cameras s'' = stage_cameras s0" "cogl_modelview s'' = cogl_modelview s0"
    "priv_actor s'' = priv_actor s0" "stage_cameras_age s'' = stage_cameras_age s0"
    "priv_cameras_age s'' = priv_cameras_age s0" "actor_painted s'' = actor_painted s0"
    by (simp_all add: s0_def)
  note s0 = eq[folded s0_def]
  have rp: "clutter_effect_real_paint s1 = Some s''"
    using pp po by (simp add: clutter_effect_real_paint_def Let_def)
  define s2 where "s2 = s''\<lparr>priv_camera_state :=
                           (priv_camera_state s'')
                             [i := (priv_camera_state s'' ! i)
                                \<lparr>valid_for_age := age (stage_cameras s'' ! camera (priv_camera_state s1 ! i))\<rparr>]\<rparr>"
  have paint: "clutter_offscreen_effect_paint s False = Some s2"
    using act cur_i g_i off_i rp
    by (simp add: clutter_offscreen_effect_paint_def Let_def s2_def i_def[symmetric])
  from sync3 have age3: "age (stage_cameras s3 ! camera (priv_camera_state s3 ! i)) =
                          valid_for_age (priv_camera_state s3 ! i)"
    and c3: "camera (priv_camera_state s3 ! i) < length (stage_cameras s3)"
    and a3: "stage_cameras_age s3 = priv_cameras_age s3"
    by (simp_all add: in_sync_def)
  have "cached s2 t f p"
    using len3 t f p age3 c3 a3 cam' cur3 f3 i3
    by (simp add: cached_def in_sync_def s2_def flds s0)
  moreover have "actor_painted s2 = actor_painted s @ [Some f]"
    by (simp add: s2_def flds s0)
  moreover have "length (cogl_drawn s2) = Suc (length (cogl_drawn s))"
  proof -
    have "length (map draw_pipeline (cogl_drawn s'')) = Suc (length (cogl_drawn s3))"
      by (simp only: dr) simp
    then show ?thesis by (simp add: s2_def f3)
  qed
  moreover have "stage_current_camera s2 = stage_current_camera s"
    by (simp add: s2_def flds s0 i3 i_def)
  ultimately show ?thesis using paint by blast
qed



text \<open>
  C1.  First part: if the entry that the paint operation looks up for the
  current camera has an offscreen buffer, the dirty flag is not set, the
  current model-view matrix is the entry's \<open>last_matrix_drawn\<close> and the entry's
  \<open>valid_for_age\<close> is its camera's age, then the paint operation is the
  compositing step alone: whatever state it returns differs from the state
  before only by one more drawn rectangle (the actor's subtree is not painted,
  nothing is cleared, no entry changes), and it does return when the entry
  also has its pipeline and texture.  Second part: on an enabled effect with
  an actor whose current entry has no offscreen buffer yet and whose
  allocations succeed, any number \<open>n + 1\<close> of consecutive paint calls without
  the dirty flag paints the actor's subtree exactly once, into the entry's
  offscreen buffer, and after each of the calls the entry holds the same
  texture and the same offscreen buffer.
\<close>

theorem paint_cache_reuse:
  "(priv_actor s \<and> stage_current_camera s < length (stage_cameras s) \<and>
    get_per_camera_state s (stage_current_camera s) = Some s1 \<and>
    offscreen (priv_camera_state s1 ! stage_current_camera s) \<noteq> None \<and>
    \<not> actor_dirty \<and>
    cogl_modelview s1 = last_matrix_drawn (priv_camera_state s1 ! stage_current_camera s) \<and>
    valid_for_age (priv_camera_state s1 ! stage_current_camera s) =
      age (stage_cameras s1 ! camera (priv_camera_state s1 ! stage_current_camera s))
    \<longrightarrow>
      clutter_offscreen_effect_paint s actor_dirty = clutter_offscreen_effect_paint_texture s \<and>
      (\<forall>s'. clutter_offscreen_effect_paint s actor_dirty = Some s' \<longrightarrow>
          s'\<lparr>cogl_drawn := cogl_drawn s\<rparr> = s \<and>
          length (cogl_drawn s') = Suc (length (cogl_drawn s))) \<and>
      (pipeline (priv_camera_state s1 ! stage_current_camera s) \<noteq> None \<and>
       texture (priv_camera_state s1 ! stage_current_camera s) \<noteq> None \<longrightarrow>
         clutter_offscreen_effect_paint s actor_dirty \<noteq> None)) \<and>
   (meta_enabled z \<and> meta_actor z \<and> priv_actor z \<and>
    stage_current_camera z < length (stage_cameras z) \<and>
    get_per_camera_state z (stage_current_camera z) = Some z1 \<and>
    offscreen (priv_camera_state z1 ! stage_current_camera z) = None \<and>
    fbo_request (actor_paint_box z) (viewport (stage_cameras z ! stage_current_camera z)) =
      (fw, fh, xo, yo) \<and>
    create_texture z (float_to_int fw) (float_to_int fh) \<noteq> None \<and>
    cogl_offscreen_ok z
    \<longrightarrow>
      (\<exists>t f. \<forall>n. \<exists>zn. paint_times (Suc n) z = Some zn \<and>
          actor_painted zn = actor_painted z @ [Some f] \<and>
          texture (priv_camera_state zn ! stage_current_camera z) = Some t \<and>
          offscreen (priv_camera_state zn ! stage_current_camera z) = Some f \<and>
          length (cogl_drawn zn) = length (cogl_drawn z) + Suc n))"
proof (intro conjI impI)
  assume h: "priv_actor s \<and> stage_current_camera s < length (stage_cameras s) \<and>
    get_per_camera_state s (stage_current_camera s) = Some s1 \<and>
    offscreen (priv_camera_state s1 ! stage_current_camera s) \<noteq> None \<and>
    \<not> actor_dirty \<and>
    cogl_modelview s1 = last_matrix_drawn (priv_camera_state s1 ! stage_current_camera s) \<and>
    valid_for_age (priv_camera_state s1 ! stage_current_camera s) =
      age (stage_cameras s1 ! camera (priv_camera_state s1 ! stage_current_camera s))"
  then have g: "get_per_camera_state s (stage_current_camera s) = Some s1"
    and off1: "offscreen (priv_camera_state s1 ! stage_current_camera s) \<noteq> None" by simp_all
  have eq: "s1 = s" by (rule get_per_camera_state_offscreen[OF g off1])
  have sync: "in_sync s (stage_current_camera s)" using get_in_sync[OF g] by (simp add: eq)
  from h have cur: "stage_current_camera s < length (stage_cameras s)"
    and off: "offscreen (priv_camera_state s ! stage_current_camera s) \<noteq> None"
    and nd: "\<not> actor_dirty"
    and m: "cogl_modelview s = last_matrix_drawn (priv_camera_state s ! stage_current_camera s)"
    by (simp_all add: eq)
  show A: "clutter_offscreen_effect_paint s actor_dirty = clutter_offscreen_effect_paint_texture s"
    by (rule paint_cached[OF sync cur off nd m])
  show "\<forall>s'. clutter_offscreen_effect_paint s actor_dirty = Some s' \<longrightarrow>
          s'\<lparr>cogl_drawn := cogl_drawn s\<rparr> = s \<and>
          length (cogl_drawn s') = Suc (length (cogl_drawn s))"
    using paint_texture_frame[OF sync] by (simp add: A)
  assume "pipeline (priv_camera_state s1 ! stage_current_camera s) \<noteq> None \<and>
       texture (priv_camera_state s1 ! stage_current_camera s) \<noteq> None"
  with off obtain t f p where "texture (priv_camera_state s ! stage_current_camera s) = Some t"
    "offscreen (priv_camera_state s ! stage_current_camera s) = Some f"
    "pipeline (priv_camera_state s ! stage_current_camera s) = Some p"
    by (auto simp: eq)
  with sync cur m have "cached s t f p" by (simp add: cached_def)
  from paint_texture_cached[OF this] show "clutter_offscreen_effect_paint s actor_dirty \<noteq> None"
    by (auto simp: A)
next
  assume h: "meta_enabled z \<and> meta_actor z \<and> priv_actor z \<and>
    stage_current_camera z < length (stage_cameras z) \<and>
    get_per_camera_state z (stage_current_camera z) = Some z1 \<and>
    offscreen (priv_camera_state z1 ! stage_current_camera z) = None \<and>
    fbo_request (actor_paint_box z) (viewport (stage_cameras z ! stage_current_camera z)) =
      (fw, fh, xo, yo) \<and>
    create_texture z (float_to_int fw) (float_to_int fh) \<noteq> None \<and>
    cogl_offscreen_ok z"
  from h have "\<exists>s2 t f p. clutter_offscreen_effect_paint z False = Some s2 \<and> cached s2 t f p \<and>
           actor_painted s2 = actor_painted z @ [Some f] \<and>
           length (cogl_drawn s2) = Suc (length (cogl_drawn z)) \<and>
           stage_current_camera s2 = stage_current_camera z"
    by (intro first_paint[where ?s1.0 = z1 and fw = fw and fh = fh and xo = xo and yo = yo]) simp_all
  then obtain s2 t f p where p1: "clutter_offscreen_effect_paint z False = Some s2"
    and c2: "cached s2 t f p" and ap: "actor_painted s2 = actor_painted z @ [Some f]"
    and dr: "length (cogl_drawn s2) = Suc (length (cogl_drawn z))"
    and c2c: "stage_current_camera s2 = stage_current_camera z" by blast
  have "\<forall>n. \<exists>zn. paint_times (Suc n) z = Some zn \<and>
          actor_painted zn = actor_painted z @ [Some f] \<and>
          texture (priv_camera_state zn ! stage_current_camera z) = Some t \<and>
          offscreen (priv_camera_state zn ! stage_current_camera z) = Some f \<and>
          length (cogl_drawn zn) = length (cogl_drawn z) + Suc n"
  proof
    fix n
    from cached_paint_times[OF c2, of n] obtain zn where
      a: "paint_times n s2 = Some zn" and b: "cached zn t f p"
      and c: "actor_painted zn = actor_painted s2"
      and d: "length (cogl_drawn zn) = length (cogl_drawn s2) + n"
      and e: "stage_current_camera zn = stage_current_camera s2" by blast
    from e c2c have cc: "stage_current_camera zn = stage_current_camera z" by simp
    from a b c d p1 ap dr cc show "\<exists>zn. paint_times (Suc n) z = Some zn \<and>
          actor_painted zn = actor_painted z @ [Some f] \<and>
          texture (priv_camera_state zn ! stage_current_camera z) = Some t \<and>
          offscreen (priv_camera_state zn ! stage_current_camera z) = Some f \<and>
          length (cogl_drawn zn) = length (cogl_drawn z) + Suc n"
      by (simp add: cached_def)
  qed
  then show "\<exists>t f. \<forall>n. \<exists>zn. paint_times (Suc n) z = Some zn \<and>
          actor_painted zn = actor_painted z @ [Some f] \<and>
          texture (priv_camera_state zn ! stage_current_camera z) = Some t \<and>
          offscreen (priv_camera_state zn ! stage_current_camera z) = Some f \<and>
          length (cogl_drawn zn) = length (cogl_drawn z) + Suc n" by blast
qed

theorem paint_cache_reuse_witness:
  "(priv_actor painted_scene \<and>
    stage_current_camera painted_scene < length (stage_cameras painted_scene) \<and>
    get_per_camera_state painted_scene (stage_current_camera painted_scene) = Some painted_scene \<and>
    offscreen (priv_camera_state painted_scene ! stage_current_camera painted_scene) \<noteq> None \<and>
    cogl_modelview painted_scene =
      last_matrix_drawn (priv_camera_state painted_scene ! stage_current_camera painted_scene) \<and>
    valid_for_age (priv_camera_state painted_scene ! stage_current_camera painted_scene) =
      age (stage_cameras painted_scene !
             camera (priv_camera_state painted_scene ! stage_current_camera painted_scene)) \<and>
    pipeline (priv_camera_state painted_scene ! stage_current_camera painted_scene) \<noteq> None \<and>
    texture (priv_camera_state painted_scene ! stage_current_camera painted_scene) \<noteq> None \<and>
    clutter_offscreen_effect_paint painted_scene False =
      clutter_offscreen_effect_paint_texture painted_scene \<and>
    clutter_offscreen_effect_paint painted_scene False \<noteq> None) \<and>
   (meta_enabled scene \<and> meta_actor scene \<and> priv_actor scene \<and>
    stage_current_camera scene < length (stage_cameras scene) \<and>
    get_per_camera_state scene (stage_current_camera scene) = Some synced_scene \<and>
    offscreen (priv_camera_state synced_scene ! stage_current_camera scene) = None \<and>
    fbo_request (actor_paint_box scene) (viewport (stage_cameras scene ! stage_current_camera scene)) =
      (100, 100, 50, 50) \<and>
    create_texture scene (float_to_int 100) (float_to_int 100) \<noteq> None \<and>
    cogl_offscreen_ok scene \<and>
    map_option actor_painted (paint_times (Suc (Suc (Suc 0))) scene) = Some [Some 2] \<and>
    map_option (map texture \<circ> priv_camera_state) (paint_times (Suc (Suc (Suc 0))) scene) =
      Some [Some 1])"
proof -
  have a: "priv_actor painted_scene \<and>
    stage_current_camera painted_scene < length (stage_cameras painted_scene) \<and>
    get_per_camera_state painted_scene (stage_current_camera painted_scene) = Some painted_scene \<and>
    offscreen (priv_camera_state painted_scene ! stage_current_camera painted_scene) \<noteq> None \<and>
    \<not> False \<and>
    cogl_modelview painted_scene =
      last_matrix_drawn (priv_camera_state painted_scene ! stage_current_camera painted_scene) \<and>
    valid_for_age (priv_camera_state painted_scene ! stage_current_camera painted_scene) =
      age (stage_cameras painted_scene !
             camera (priv_camera_state painted_scene ! stage_current_camera painted_scene))"
    by (simp add: painted_scene_def scene_def cache_defs paint_defs cogl_defs Let_def)
  have a': "pipeline (priv_camera_state painted_scene ! stage_current_camera painted_scene) \<noteq> None \<and>
    texture (priv_camera_state painted_scene ! stage_current_camera painted_scene) \<noteq> None"
    by (simp add: painted_scene_def scene_def cache_defs paint_defs cogl_defs Let_def)
  have b: "meta_enabled scene \<and> meta_actor scene \<and> priv_actor scene \<and>
    stage_current_camera scene < length (stage_cameras scene) \<and>
    get_per_camera_state scene (stage_current_camera scene) = Some synced_scene \<and>
    offscreen (priv_camera_state synced_scene ! stage_current_camera scene) = None \<and>
    fbo_request (actor_paint_box scene) (viewport (stage_cameras scene ! stage_current_camera scene)) =
      (100, 100, 50, 50) \<and>
    create_texture scene (float_to_int 100) (float_to_int 100) \<noteq> None \<and>
    cogl_offscreen_ok scene"
    by (simp add: synced_scene_def scene_def cache_defs paint_defs cogl_defs Let_def)
  have c: "map_option actor_painted (paint_times (Suc (Suc (Suc 0))) scene) = Some [Some 2] \<and>
    map_option (map texture \<circ> priv_camera_state) (paint_times (Suc (Suc (Suc 0))) scene) =
      Some [Some 1]"
    by (simp add: scene_def cache_defs paint_defs cogl_defs Let_def)
  have d: "clutter_offscreen_effect_paint painted_scene False =
      clutter_offscreen_effect_paint_texture painted_scene \<and>
    clutter_offscreen_effect_paint painted_scene False \<noteq> None"
    using paint_cache_reuse[where s = painted_scene and ?s1.0 = painted_scene and actor_dirty = False
         and z = scene and ?z1.0 = synced_scene and fw = 100 and fh = 100 and xo = 50 and yo = 50]
      a a'
    by blast
  from a a' b c d show ?thesis by blast
qed

section \<open>The rebuild of the cache\<close>

text \<open>
  C5.  The rebuild does not release the textures.  In the painted scene the
  one entry owns pipeline 0, texture 1 and offscreen buffer 2, each with one
  reference.  After a camera has been added, the lookup rebuilds the array:
  the two new entries hold no handle, the pipeline and the offscreen buffer
  have been released, and texture 1 still has its reference, which nothing
  holds any more.
\<close>

theorem rebuild_leaks_texture:
  "map pipeline (priv_camera_state painted_scene) = [Some 0] \<and>
   map texture (priv_camera_state painted_scene) = [Some 1] \<and>
   map offscreen (priv_camera_state painted_scene) = [Some 2] \<and>
   map (cogl_refcount painted_scene) [0, 1, 2] = [1, 1, 1] \<and>
   get_per_camera_state restaged_scene 0 = Some rebuilt_scene \<and>
   map pipeline (priv_camera_state rebuilt_scene) = [None, None] \<and>
   map texture (priv_camera_state rebuilt_scene) = [None, None] \<and>
   map offscreen (priv_camera_state rebuilt_scene) = [None, None] \<and>
   map (cogl_refcount rebuilt_scene) [0, 1, 2] = [0, 1, 0]"
  by (simp add: rebuilt_scene_def restaged_scene_def painted_scene_def scene_def
        cache_defs paint_defs cogl_defs Let_def)

section \<open>The pipeline cache of the blur class\<close>

















section \<open>The blur effect without GLSL\<close>

text \<open>
  C10, as amended.  If GLSL shaders are unavailable and the effect is enabled
  and attached to an actor, \<open>clutter_blur_effect_pre_paint\<close> logs a warning,
  sets the effect's enabled flag to false and returns \<open>FALSE\<close>; from that
  state every later call returns \<open>FALSE\<close> and changes nothing, whatever the
  feature support then is.  In general, a disabled effect's \<open>pre_paint\<close>
  returns \<open>FALSE\<close> and changes nothing.
\<close>

theorem blur_pre_paint_disables:
  "(meta_enabled s \<and> meta_actor s \<and> \<not> feature_shaders_glsl s \<longrightarrow>
      (\<exists>self' s'. clutter_blur_effect_pre_paint self s = Some (False, self', s') \<and>
          \<not> meta_enabled s' \<and> length (warnings s') = Suc (length (warnings s)) \<and>
          (\<forall>self2 g. clutter_blur_effect_pre_paint self2 (s'\<lparr>feature_shaders_glsl := g\<rparr>) =
                        Some (False, self2, s'\<lparr>feature_shaders_glsl := g\<rparr>)))) \<and>
   (\<not> meta_enabled s \<longrightarrow> clutter_blur_effect_pre_paint self s = Some (False, self, s))"
  by (simp add: clutter_blur_effect_pre_paint_def clutter_actor_meta_set_enabled_def g_warning_def Let_def)

theorem blur_pre_paint_disables_witness:
  "(meta_enabled no_glsl_scene \<and> meta_actor no_glsl_scene \<and> \<not> feature_shaders_glsl no_glsl_scene \<and>
    map_option fst (clutter_blur_effect_pre_paint blur_zeroed no_glsl_scene) = Some False \<and>
    map_option (meta_enabled \<circ> snd \<circ> snd) (clutter_blur_effect_pre_paint blur_zeroed no_glsl_scene) =
      Some False) \<and>
   (\<not> meta_enabled disabled_scene \<and>
    clutter_blur_effect_pre_paint blur_zeroed disabled_scene = Some (False, blur_zeroed, disabled_scene))"
proof -
  have a: "meta_enabled no_glsl_scene \<and> meta_actor no_glsl_scene \<and> \<not> feature_shaders_glsl no_glsl_scene"
    by (simp add: no_glsl_scene_def scene_def)
  have b: "\<not> meta_enabled disabled_scene" by (simp add: disabled_scene_def scene_def)
  from blur_pre_paint_disables[where s = no_glsl_scene and self = blur_zeroed] a
  have c: "map_option fst (clutter_blur_effect_pre_paint blur_zeroed no_glsl_scene) = Some False \<and>
    map_option (meta_enabled \<circ> snd \<circ> snd) (clutter_blur_effect_pre_paint blur_zeroed no_glsl_scene) =
      Some False"
    by auto
  from blur_pre_paint_disables[where s = disabled_scene and self = blur_zeroed] b
  have d: "clutter_blur_effect_pre_paint blur_zeroed disabled_scene = Some (False, blur_zeroed, disabled_scene)"
    by blast
  from a b c d show ?thesis by blast
qed

text \<open>
  The claim as stated fails when the effect has no actor: \<open>pre_paint\<close>
  returns \<open>FALSE\<close> before it looks at the feature, and the effect stays
  enabled.
\<close>

theorem blur_pre_paint_counterexample:
  "\<not> feature_shaders_glsl detached_scene \<and>
   map_option fst (clutter_blur_effect_pre_paint blur_zeroed detached_scene) = Some False \<and>
   map_option (meta_enabled \<circ> snd \<circ> snd) (clutter_blur_effect_pre_paint blur_zeroed detached_scene) =
     Some True"
  by (simp add: clutter_blur_effect_pre_paint_def detached_scene_def scene_def blur_zeroed_def Let_def)

section \<open>The shader source\<close>

text \<open>
  C8, as amended.  On an effect without a snippet, a call of
  \<open>clutter_shader_effect_set_shader_source\<close> with a non-empty source returns
  \<open>TRUE\<close>, leaves the effect with a pipeline and a snippet that wraps the
  source, attached to the pipeline, and every later call with a non-empty
  source returns \<open>TRUE\<close> and changes nothing.  On an effect that has a
  snippet, a call with a non-empty source returns \<open>TRUE\<close> and changes nothing.
  A call with an empty source or with \<open>NULL\<close> returns \<open>FALSE\<close> and changes
  nothing.
\<close>

theorem shader_source_write_once:
  "(priv_snippet priv = None \<and> src \<noteq> [] \<longrightarrow>
      (\<exists>priv' c' p sn.
          clutter_shader_effect_set_shader_source priv (Some src) c = (True, priv', c') \<and>
          priv_pipeline priv' = Some p \<and> priv_snippet priv' = Some sn \<and>
          cogl_pipeline_snippets c' p = cogl_pipeline_snippets c p @ [sn] \<and>
          map_option snippet_declarations (cogl_snippet c' sn) =
            Some (Some (''#define main clutter_shader_effect_main'' @ [CHR 0x0A] @ src @
                        [CHR 0x0A] @ ''#undef main'' @ [CHR 0x0A])) \<and>
          (\<forall>src2. src2 \<noteq> [] \<longrightarrow>
             clutter_shader_effect_set_shader_source priv' (Some src2) c' = (True, priv', c')))) \<and>
   (priv_snippet priv \<noteq> None \<and> src \<noteq> [] \<longrightarrow>
      clutter_shader_effect_set_shader_source priv (Some src) c = (True, priv, c)) \<and>
   clutter_shader_effect_set_shader_source priv (Some []) c = (False, priv, c) \<and>
   clutter_shader_effect_set_shader_source priv None c = (False, priv, c)"
  by (auto simp: clutter_shader_effect_set_shader_source_def clutter_shader_effect_ensure_pipeline_def
        clutter_shader_effect_create_snippet_def cogl_pipeline_add_snippet_def cogl_defs Let_def
      split: option.splits prod.splits)

theorem shader_source_write_once_witness:
  "(priv_snippet shader_new = None \<and> ''void main () { }'' \<noteq> [] \<and>
    fst shader_installed = True \<and>
    priv_snippet (fst (snd shader_installed)) = Some 1 \<and>
    priv_pipeline (fst (snd shader_installed)) = Some 0 \<and>
    ''gl_FragColor = vec4 (1.0);'' \<noteq> [] \<and>
    clutter_shader_effect_set_shader_source (fst (snd shader_installed))
      (Some ''gl_FragColor = vec4 (1.0);'') (snd (snd shader_installed)) =
      (True, fst (snd shader_installed), snd (snd shader_installed)))"
proof -
  have a: "priv_snippet shader_new = None \<and> ''void main () { }'' \<noteq> []"
    by (simp add: shader_new_def)
  have b: "fst shader_installed = True \<and>
    priv_snippet (fst (snd shader_installed)) = Some 1 \<and>
    priv_pipeline (fst (snd shader_installed)) = Some 0"
    by (simp add: shader_installed_def shader_new_def shader_context_def
          clutter_shader_effect_set_shader_source_def clutter_shader_effect_ensure_pipeline_def
          clutter_shader_effect_create_snippet_def cogl_pipeline_add_snippet_def cogl_defs Let_def)
  then have c: "priv_snippet (fst (snd shader_installed)) \<noteq> None \<and> ''gl_FragColor = vec4 (1.0);'' \<noteq> []"
    by simp
  from shader_source_write_once[where priv = "fst (snd shader_installed)"
         and src = "''gl_FragColor = vec4 (1.0);''" and c = "snd (snd shader_installed)"] c
  have d: "clutter_shader_effect_set_shader_source (fst (snd shader_installed))
      (Some ''gl_FragColor = vec4 (1.0);'') (snd (snd shader_installed)) =
      (True, fst (snd shader_installed), snd (snd shader_installed))"
    by blast
  from shader_source_write_once[where priv = shader_new and src = "''void main () { }''"
         and c = shader_context] a b c d
  show ?thesis by blast
qed

text \<open>
  The claim as stated fails for a later call with an empty source or with
  \<open>NULL\<close>: it returns \<open>FALSE\<close>.
\<close>

theorem shader_source_counterexample:
  "fst shader_installed = True \<and>
   fst (clutter_shader_effect_set_shader_source (fst (snd shader_installed)) (Some [])
          (snd (snd shader_installed))) = False \<and>
   fst (clutter_shader_effect_set_shader_source (fst (snd shader_installed)) None
          (snd (snd shader_installed))) = False"
  by (simp add: shader_installed_def shader_new_def shader_context_def
        clutter_shader_effect_set_shader_source_def clutter_shader_effect_ensure_pipeline_def
        clutter_shader_effect_create_snippet_def cogl_pipeline_add_snippet_def cogl_defs Let_def)

end
